theory Spec2Isabelle
  imports Complex_Main
begin

section \<open>ParkSense: route scoring and trail-network routing\<close>

text \<open>
  A shallow embedding of the scoring engine (\<^verbatim>\<open>js/route-scoring.js\<close>, class
  \<^verbatim>\<open>RouteScorer\<close>: the five sub-scores, the weight adjustment, the composite
  score and the top-2 recommendation) and of the trail-graph code of the map prototype
  (\<^verbatim>\<open>parksense-mobile-complete.js\<close>: \<^verbatim>\<open>buildTrailGraph\<close>,
  \<^verbatim>\<open>haversine\<close>, \<^verbatim>\<open>dijkstra\<close>). The definitions come first, the
  properties after them.

  Numbers. A JavaScript number is an IEEE 754 double. The weight adjustment is modelled
  in double arithmetic, every addition and every literal rounded (\<open>fl\<close> below), since
  what can be said of the weights depends on their last bit. The sub-scores, the
  distances and the comparisons of the ranking are modelled on the real numbers the
  doubles denote, with exact operations: a score or a distance of the model is the number
  that the result of the code approximates, to within rounding errors of relative size
  \<open>2^-53\<close> for each operation. No statement below rests on the last bits of a score or
  of a distance, and the bounds on scores are proved with margins far above these
  errors. The values \<^verbatim>\<open>undefined\<close>, \<^verbatim>\<open>NaN\<close> and
  \<^verbatim>\<open>Infinity\<close> are modelled where the code can meet them on the inputs
  considered: an optional property is an \<^typ>\<open>'a option\<close>, a division whose divisor
  may be zero is written out, and the distance estimates of the path search carry an
  explicit infinity.
\<close>

subsection \<open>Truthiness and defaults\<close>

text \<open>\<^verbatim>\<open>x || d\<close> on an optional number: the default is taken when the
  property is missing and also when it is \<^verbatim>\<open>0\<close> (falsy).\<close>

definition num_or :: "real option \<Rightarrow> real \<Rightarrow> real" where
  "num_or v d = (case v of None \<Rightarrow> d | Some x \<Rightarrow> if x = 0 then d else x)"

text \<open>Truthiness of an optional number, string and boolean property.\<close>

definition truthy_num :: "real option \<Rightarrow> bool" where
  "truthy_num v = (case v of None \<Rightarrow> False | Some x \<Rightarrow> x \<noteq> 0)"

definition truthy_str :: "string option \<Rightarrow> bool" where
  "truthy_str v = (case v of None \<Rightarrow> False | Some s \<Rightarrow> s \<noteq> [])"

definition truthy_flag :: "bool option \<Rightarrow> bool" where
  "truthy_flag v = (v = Some True)"

text \<open>\<^verbatim>\<open>Math.round\<close> rounds to the nearest integer, halves upwards.\<close>

definition js_round :: "real \<Rightarrow> real" where
  "js_round x = of_int \<lfloor>x + 1 / 2\<rfloor>"

text \<open>The only exception the modelled code can raise: reading a property of
  \<^verbatim>\<open>undefined\<close> or \<^verbatim>\<open>null\<close>.\<close>

datatype js_error = TypeError

subsection \<open>Double-precision arithmetic\<close>

text \<open>The weights are IEEE 754 binary64 numbers, and the claims about them turn on their
  last bit, so the arithmetic of the weight adjustment is modelled with its rounding. A
  double is represented by the real number it denotes; \<open>fl x\<close> is the double nearest
  to the real \<open>x\<close>, ties going to the even significand (the rounding of every
  JavaScript operation and of every decimal literal). The exponent is unbounded here:
  overflow to \<^verbatim>\<open>Infinity\<close> and the denormal numbers are not modelled. Every
  number that is rounded below lies between \<open>1/32\<close> and 2 in absolute value.\<close>

text \<open>Rounding to the nearest integer, ties to even: \<open>round_pick f y\<close> chooses
  between \<open>f\<close> and \<open>f + 1\<close> for a number \<open>y\<close> whose integer part is \<open>f\<close>.\<close>

definition round_pick :: "int \<Rightarrow> real \<Rightarrow> int" where
  "round_pick f y =
     (if y - of_int f < 1 / 2 then f
      else if 1 / 2 < y - of_int f then f + 1
      else if even f then f else f + 1)"

definition round_even :: "real \<Rightarrow> int" where
  "round_even y = round_pick \<lfloor>y\<rfloor> y"

text \<open>The binary exponent \<open>e\<close> of a non-zero number \<open>x\<close>, with
  \<open>2^e \<le> |x| < 2^(e+1)\<close>: by halving from 1 upwards, by doubling below 1.\<close>

function up_exp :: "real \<Rightarrow> int" where
  "up_exp x = (if x < 2 then 0 else up_exp (x / 2) + 1)"
  by pat_completeness auto

termination
proof (relation "measure (\<lambda>x. nat \<lfloor>x\<rfloor>)")
  show "wf (measure (\<lambda>x::real. nat \<lfloor>x\<rfloor>))" by simp
next
  fix x :: real
  assume "\<not> x < 2"
  then have "x / 2 \<le> x - 1" by simp
  then have "\<lfloor>x / 2\<rfloor> \<le> \<lfloor>x - 1\<rfloor>" by (rule floor_mono)
  moreover have "0 < \<lfloor>x\<rfloor>" using \<open>\<not> x < 2\<close> by simp
  ultimately show "(x / 2, x) \<in> measure (\<lambda>x. nat \<lfloor>x\<rfloor>)" by simp
qed

function down_exp :: "real \<Rightarrow> int" where
  "down_exp x = (if x \<le> 0 \<or> 1 \<le> x then 0 else down_exp (2 * x) - 1)"
  by pat_completeness auto

termination
proof (relation "measure (\<lambda>x. nat \<lceil>1 / x\<rceil>)")
  show "wf (measure (\<lambda>x::real. nat \<lceil>1 / x\<rceil>))" by simp
next
  fix x :: real
  assume "\<not> (x \<le> 0 \<or> 1 \<le> x)"
  then have x: "0 < x" "x < 1" by simp_all
  then have y: "1 < 1 / x" by simp
  have "\<lceil>1 / (2 * x)\<rceil> < \<lceil>1 / x\<rceil>"
  proof (cases "1 / x \<le> 2")
    case True
    then have "1 / (2 * x) \<le> 1" using x by (simp add: field_simps)
    then have "\<lceil>1 / (2 * x)\<rceil> \<le> 1" by simp
    moreover have "1 < \<lceil>1 / x\<rceil>" using y by linarith
    ultimately show ?thesis by linarith
  next
    case False
    then have "1 / (2 * x) + 1 < 1 / x" using x by (simp add: field_simps)
    moreover have "of_int \<lceil>1 / (2 * x)\<rceil> < 1 / (2 * x) + 1" by linarith
    moreover have "1 / x \<le> of_int \<lceil>1 / x\<rceil>" by linarith
    ultimately have "(of_int \<lceil>1 / (2 * x)\<rceil> :: real) < of_int \<lceil>1 / x\<rceil>" by linarith
    then show ?thesis by simp
  qed
  moreover have "0 < \<lceil>1 / x\<rceil>" using y by linarith
  ultimately show "(2 * x, x) \<in> measure (\<lambda>x. nat \<lceil>1 / x\<rceil>)" by simp
qed

declare up_exp.simps [simp del] down_exp.simps [simp del]

definition bexp :: "real \<Rightarrow> int" where
  "bexp x = (if 1 \<le> \<bar>x\<bar> then up_exp \<bar>x\<bar> else down_exp \<bar>x\<bar>)"

text \<open>\<open>x * 2^k\<close> for an integer \<open>k\<close>, and the rounding itself: the number is
  scaled so that its integer part has 53 bits, rounded to an integer, and scaled back.\<close>

definition scale2 :: "real \<Rightarrow> int \<Rightarrow> real" where
  "scale2 x k = (if 0 \<le> k then x * 2 ^ nat k else x / 2 ^ nat (- k))"

definition fl_scaled :: "int \<Rightarrow> real \<Rightarrow> real" where
  "fl_scaled k x = scale2 (of_int (round_even (scale2 x k))) (- k)"

definition fl :: "real \<Rightarrow> real" where
  "fl x = (if x = 0 then 0 else fl_scaled (52 - bexp x) x)"

subsection \<open>Weights and preferences\<close>

record weights =
  environment :: real
  wildlife :: real
  facility :: real
  path :: real
  personal :: real

text \<open>The user profile passed as \<^verbatim>\<open>preferences\<close>. Every property is
  optional; \<open>needs\<close> lists the keys of the \<^verbatim>\<open>needs\<close> object with the
  truthiness of their values.\<close>

record preferences =
  needs :: "(string \<times> bool) list option"
  preferredDistance :: "real option"
  difficultyLevel :: "string option"
  interests :: "string list option"
  preferredDuration :: "real option"
  prioritizeWildlife :: "bool option"
  weatherSensitive :: "bool option"
  facilityDependent :: "bool option"
  prioritizePathQuality :: "bool option"

text \<open>The default weights: the doubles of the five literals.\<close>

definition defaultWeights :: weights where
  "defaultWeights =
     \<lparr>environment = fl 0.3, wildlife = fl 0.25, facility = fl 0.2, path = fl 0.15,
      personal = fl 0.1\<rparr>"

text \<open>\<^verbatim>\<open>adjustWeights(preferences)\<close>. Each of its four \<^verbatim>\<open>if\<close>
  blocks is a step on the weights; each \<^verbatim>\<open>+=\<close> and \<^verbatim>\<open>-=\<close> adds or
  subtracts the double of the literal and rounds the result.\<close>

definition wildlife_step :: "preferences \<Rightarrow> weights \<Rightarrow> weights" where
  "wildlife_step p w =
     (if truthy_flag (prioritizeWildlife p)
      then w\<lparr>wildlife := fl (wildlife w + fl 0.15),
             environment := fl (environment w - fl 0.1),
             facility := fl (facility w - fl 0.05)\<rparr>
      else w)"

definition weather_step :: "preferences \<Rightarrow> weights \<Rightarrow> weights" where
  "weather_step p w =
     (if truthy_flag (weatherSensitive p)
      then w\<lparr>environment := fl (environment w + fl 0.2),
             wildlife := fl (wildlife w - fl 0.1),
             path := fl (path w - fl 0.1)\<rparr>
      else w)"

definition facility_step :: "preferences \<Rightarrow> weights \<Rightarrow> weights" where
  "facility_step p w =
     (if truthy_flag (facilityDependent p)
      then w\<lparr>facility := fl (facility w + fl 0.15),
             wildlife := fl (wildlife w - fl 0.05),
             path := fl (path w - fl 0.1)\<rparr>
      else w)"

definition path_step :: "preferences \<Rightarrow> weights \<Rightarrow> weights" where
  "path_step p w =
     (if truthy_flag (prioritizePathQuality p)
      then w\<lparr>path := fl (path w + fl 0.15),
             personal := fl (personal w - fl 0.05),
             environment := fl (environment w - fl 0.1)\<rparr>
      else w)"

definition adjustWeights :: "preferences option \<Rightarrow> weights" where
  "adjustWeights preferences =
     (case preferences of
        None \<Rightarrow> defaultWeights
      | Some p \<Rightarrow> path_step p (facility_step p (weather_step p (wildlife_step p defaultWeights))))"

text \<open>The sum of the five weights of a profile, as the expression
  \<^verbatim>\<open>w.environment + w.wildlife + w.facility + w.path + w.personal\<close> computes it:
  added from left to right, each addition rounded. \<open>exact_sum\<close> is the sum of the same
  five numbers without rounding.\<close>

definition weight_sum :: "weights \<Rightarrow> real" where
  "weight_sum w =
     fl (fl (fl (fl (environment w + wildlife w) + facility w) + path w) + personal w)"

definition exact_sum :: "weights \<Rightarrow> real" where
  "exact_sum w = environment w + wildlife w + facility w + path w + personal w"

text \<open>A profile that sets exactly the given flags and nothing else.\<close>

definition flags_only :: "bool \<Rightarrow> bool \<Rightarrow> bool \<Rightarrow> bool \<Rightarrow> preferences" where
  "flags_only pw ws fd pq =
     \<lparr>needs = None, preferredDistance = None, difficultyLevel = None, interests = None,
      preferredDuration = None, prioritizeWildlife = Some pw, weatherSensitive = Some ws,
      facilityDependent = Some fd, prioritizePathQuality = Some pq\<rparr>"

subsection \<open>Great-circle distance\<close>

text \<open>The two distance functions are modelled on the real numbers: \<open>sin\<close>,
  \<open>cos\<close>, \<open>sqrt\<close> and \<open>arctan\<close> are the mathematical functions and \<open>pi\<close> is
  the number \<open>\<pi>\<close>, where the engine computes in doubles with its own approximations of
  \<^verbatim>\<open>Math.sin\<close>, \<^verbatim>\<open>Math.cos\<close>, \<^verbatim>\<open>Math.sqrt\<close> and
  \<^verbatim>\<open>Math.atan2\<close>. The value of a definition below is the number that the result of
  the code approximates; nothing is stated here about the last digits of a computed
  distance.\<close>

text \<open>\<^verbatim>\<open>Math.atan2(y, x)\<close>, without signed zeros.\<close>

definition js_atan2 :: "real \<Rightarrow> real \<Rightarrow> real" where
  "js_atan2 y x =
     (if 0 < x then arctan (y / x)
      else if x < 0 then (if 0 \<le> y then arctan (y / x) + pi else arctan (y / x) - pi)
      else if 0 < y then pi / 2
      else if y < 0 then - (pi / 2)
      else 0)"

text \<open>\<^verbatim>\<open>haversine(p1, p2)\<close> of the map module; a point is the array
  \<^verbatim>\<open>[lat, lng]\<close>, here a pair.\<close>

definition haversine :: "real \<times> real \<Rightarrow> real \<times> real \<Rightarrow> real" where
  "haversine p1 p2 =
     (let R = 6371000;
          lat1 = fst p1 * pi / 180; lng1 = snd p1 * pi / 180;
          lat2 = fst p2 * pi / 180; lng2 = snd p2 * pi / 180;
          dlat = lat2 - lat1; dlng = lng2 - lng1;
          A = (sin (dlat / 2))\<^sup>2 + cos lat1 * cos lat2 * (sin (dlng / 2))\<^sup>2
      in 2 * R * js_atan2 (sqrt A) (sqrt (1 - A)))"

text \<open>\<^verbatim>\<open>RouteScorer.calculateDistance(point1, point2)\<close>; a point is an object
  \<^verbatim>\<open>{lat, lng}\<close>.\<close>

record geo_point =
  lat :: real
  lng :: real

definition calculateDistance :: "geo_point \<Rightarrow> geo_point \<Rightarrow> real" where
  "calculateDistance point1 point2 =
     (let R = 6371 * 10 ^ 3;
          phi1 = lat point1 * pi / 180;
          phi2 = lat point2 * pi / 180;
          dphi = (lat point2 - lat point1) * pi / 180;
          dlambda = (lng point2 - lng point1) * pi / 180;
          a = sin (dphi / 2) * sin (dphi / 2)
              + cos phi1 * cos phi2 * sin (dlambda / 2) * sin (dlambda / 2);
          c = 2 * js_atan2 (sqrt a) (sqrt (1 - a))
      in R * c)"

subsection \<open>Routes, weather and context\<close>

text \<open>A facility of a route: \<^verbatim>\<open>{type, status}\<close>.\<close>

record facility_item =
  f_type :: string
  f_status :: "string option"

text \<open>A route as the scorer reads it. Every property is optional, since the code reads
  each one through a default; \<open>wildlifeData\<close> maps a species to its base probability,
  and only the length of \<open>recentSightings\<close> is used.\<close>

record route =
  distance :: "real option"
  estimatedTime :: "real option"
  difficulty :: "string option"
  accessible :: "bool option"
  facilities :: "facility_item list option"
  wildlifeData :: "(string \<times> real) list option"
  species :: "string list option"
  wildlifeHistory :: "real option"
  recentSightings :: "string list option"
  shelterCoverage :: "real option"
  shadeCoverage :: "real option"
  exposureLevel :: "real option"
  nearWater :: "bool option"
  vegetationCoverage :: "real option"
  crowdDensity :: "real option"
  surfaceQuality :: "real option"
  gradient :: "real option"
  safety :: "real option"
  scenery :: "real option"
  themes :: "string list option"
  startPoint :: "geo_point option"

text \<open>A weather reading, and the context of a scoring call. \<open>time\<close> is the hour of
  the \<^verbatim>\<open>Date\<close> in \<^verbatim>\<open>context.time\<close>, the only part of it the code uses
  (\<^verbatim>\<open>getHours()\<close>).\<close>

record weatherData =
  precipitation :: "real option"
  temperature :: "real option"
  windSpeed :: "real option"
  humidity :: "real option"
  sunny :: "bool option"

record ctx =
  weather :: "weatherData option"
  time :: "nat option"
  season :: "string option"

subsection \<open>Sub-scores\<close>

text \<open>\<^verbatim>\<open>x || d\<close> on an optional string.\<close>

definition str_or :: "string option \<Rightarrow> string \<Rightarrow> string" where
  "str_or v d = (case v of None \<Rightarrow> d | Some x \<Rightarrow> if x = [] then d else x)"

text \<open>A destructuring default \<^verbatim>\<open>{ x = d } = obj\<close>: taken only when the property is
  \<^verbatim>\<open>undefined\<close>.\<close>

definition dflt :: "'a option \<Rightarrow> 'a \<Rightarrow> 'a" where
  "dflt v d = (case v of None \<Rightarrow> d | Some x \<Rightarrow> x)"

text \<open>The weather object \<^verbatim>\<open>{}\<close>.\<close>

definition empty_weather :: weatherData where
  "empty_weather = \<lparr>precipitation = None, temperature = None, windSpeed = None,
                     humidity = None, sunny = None\<rparr>"

text \<open>The five adjustments of \<^verbatim>\<open>calculateWeatherScore\<close>, in the order of the
  source; each takes the score so far and returns the new one.\<close>

definition rain_adjust :: "route \<Rightarrow> real \<Rightarrow> real \<Rightarrow> real" where
  "rain_adjust r precipitation' sc =
     (if precipitation' > 0
      then (let shelter = num_or (shelterCoverage r) 0.3;
                sc' = shelter * 0.8
            in if precipitation' > 5 then sc' * 0.6
               else if precipitation' > 2 then sc' * 0.8
               else sc')
      else sc)"

definition heat_adjust :: "route \<Rightarrow> bool \<Rightarrow> real \<Rightarrow> real \<Rightarrow> real" where
  "heat_adjust r sunny' temperature' sc =
     (if sunny' \<and> temperature' > 25
      then (let shade = num_or (shadeCoverage r) 0.4;
                sc' = shade * 0.9
            in if temperature' > 30 then sc' * 0.7 else sc')
      else sc)"

definition comfort_adjust :: "real \<Rightarrow> real \<Rightarrow> real \<Rightarrow> real" where
  "comfort_adjust temperature' precipitation' sc =
     (if temperature' \<ge> 15 \<and> temperature' \<le> 25 \<and> precipitation' = 0
      then max sc 0.8 else sc)"

definition wind_adjust :: "route \<Rightarrow> real \<Rightarrow> real \<Rightarrow> real" where
  "wind_adjust r windSpeed' sc =
     (if windSpeed' > 15 then sc * (1 - num_or (exposureLevel r) 0.5 * 0.3) else sc)"

definition humidity_adjust :: "real \<Rightarrow> real \<Rightarrow> real" where
  "humidity_adjust humidity' sc = (if humidity' > 80 then sc * 0.9 else sc)"

definition calculateWeatherScore :: "route \<Rightarrow> weatherData \<Rightarrow> real" where
  "calculateWeatherScore r weatherData =
     (let precipitation' = dflt (precipitation weatherData) 0;
          temperature' = dflt (temperature weatherData) 15;
          windSpeed' = dflt (windSpeed weatherData) 5;
          humidity' = dflt (humidity weatherData) 60;
          sunny' = dflt (sunny weatherData) True;
          sc = humidity_adjust humidity'
                 (wind_adjust r windSpeed'
                   (comfort_adjust temperature' precipitation'
                     (heat_adjust r sunny' temperature'
                       (rain_adjust r precipitation' 0.5))))
      in max 0 (min 1 sc))"

text \<open>The active hours of the four species, in the key order of
  \<^verbatim>\<open>this.wildlifePatterns\<close>.\<close>

definition wildlifePatterns :: "(string \<times> nat list) list" where
  "wildlifePatterns =
     [(''birds'', [6, 7, 8, 17, 18, 19]),
      (''squirrels'', [8, 9, 10, 15, 16, 17]),
      (''ducks'', [7, 8, 9, 16, 17, 18]),
      (''swans'', [7, 8, 9, 10, 16, 17, 18])]"

definition getTimeBasedProbability :: "nat \<Rightarrow> (string \<times> real) list \<Rightarrow> real" where
  "getTimeBasedProbability hour wd =
     (let probability =
            fold (\<lambda>(sp, hours) probability.
                    if hour \<in> set hours then probability + num_or (map_of wd sp) 0.2
                    else probability)
                 wildlifePatterns 0
      in min 1 probability)"



definition spring_multipliers :: "(string \<times> real) list" where
  "spring_multipliers =
     [(''birds'', 1.2), (''squirrels'', 1.0), (''ducks'', 1.1), (''swans'', 0.9)]"

definition seasonalMultipliers :: "string \<Rightarrow> (string \<times> real) list option" where
  "seasonalMultipliers s =
     (if s = ''spring'' then Some spring_multipliers
      else if s = ''summer'' then
        Some [(''birds'', 1.0), (''squirrels'', 1.2), (''ducks'', 0.8), (''swans'', 0.8)]
      else if s = ''autumn'' then
        Some [(''birds'', 1.1), (''squirrels'', 1.3), (''ducks'', 1.0), (''swans'', 1.0)]
      else if s = ''winter'' then
        Some [(''birds'', 0.7), (''squirrels'', 0.6), (''ducks'', 1.2), (''swans'', 1.3)]
      else None)"

definition getSeasonalProbability :: "string \<Rightarrow> string list \<Rightarrow> real" where
  "getSeasonalProbability s sps =
     (let multipliers = dflt (seasonalMultipliers s) spring_multipliers;
          totalScore = fold (\<lambda>speciesName totalScore.
                               totalScore + num_or (map_of multipliers speciesName) 1.0 * 0.2)
                            sps 0
      in min 1 totalScore)"

definition calculateWildlifeLocationScore :: "route \<Rightarrow> real" where
  "calculateWildlifeLocationScore r =
     (let score0 = 0.3;
          score1 = (if truthy_flag (nearWater r) then score0 + 0.3 else score0);
          vegetation = num_or (vegetationCoverage r) 0.5;
          score2 = score1 + vegetation * 0.4;
          quietness = 1 - num_or (crowdDensity r) 0.5;
          score3 = score2 + quietness * 0.3
      in min 1 score3)"

definition calculateWildlifeScore :: "route \<Rightarrow> nat \<Rightarrow> string \<Rightarrow> real" where
  "calculateWildlifeScore r hour s =
     (let timeScore = getTimeBasedProbability hour (dflt (wildlifeData r) []);
          seasonScore = getSeasonalProbability s (dflt (species r) []);
          historicalScore = num_or (wildlifeHistory r) 0.6;
          sightings = dflt (recentSightings r) [];
          contributionScore = min 1 (real (length sightings) / 10);
          locationScore = calculateWildlifeLocationScore r
      in timeScore * 0.25 + seasonScore * 0.2 + historicalScore * 0.25
         + contributionScore * 0.15 + locationScore * 0.15)"

text \<open>The facility score and its four parts.\<close>

definition calculateFacilityDistribution :: "facility_item list \<Rightarrow> route \<Rightarrow> real" where
  "calculateFacilityDistribution fs r =
     (if length fs = 0 then 0
      else (let routeLength = num_or (distance r) 1000;
                idealSpacing = routeLength / max 1 (real (length fs));
                actualSpacing = routeLength / real (length fs);
                uniformity = 1 - \<bar>idealSpacing - actualSpacing\<bar> / idealSpacing
            in max 0 (min 1 uniformity)))"

text \<open>\<open>userNeeds\<close> lists the keys of the needs object with the truthiness of their
  values; the pair \<open>(score, totalNeeds)\<close> is the state of the \<^verbatim>\<open>forEach\<close>.\<close>

definition calculatePersonalFacilityScore ::
  "facility_item list \<Rightarrow> (string \<times> bool) list \<Rightarrow> real" where
  "calculatePersonalFacilityScore fs userNeeds =
     (if length userNeeds = 0 then 0.5
      else (case fold (\<lambda>(need, wanted) (score, totalNeeds).
                         if wanted
                         then (if \<exists>f\<in>set fs. f_type f = need then score + 1 else score,
                               totalNeeds + 1)
                         else (score, totalNeeds))
                      userNeeds (0::nat, 0::nat) of
              (score, totalNeeds) \<Rightarrow>
                if totalNeeds > 0 then real score / real totalNeeds else 0.5))"

definition calculateFacilityStatus :: "facility_item list \<Rightarrow> real" where
  "calculateFacilityStatus fs =
     (if length fs = 0 then 0.5
      else (let openFacilities =
                  filter (\<lambda>f. f_status f \<noteq> Some ''closed'' \<and> f_status f \<noteq> Some ''maintenance'') fs
            in real (length openFacilities) / real (length fs)))"

definition calculateFacilityScore :: "route \<Rightarrow> (string \<times> bool) list \<Rightarrow> real" where
  "calculateFacilityScore r userNeeds =
     (let fs = dflt (facilities r) [];
          basicFacilities = [''toilet'', ''bench'', ''water''];
          basicScore =
            fold (\<lambda>ty sum.
                    let count = length (filter (\<lambda>f. f_type f = ty) fs);
                        density = real count / max 1 (num_or (distance r) 1000 / 1000)
                    in sum + min 1 (density / 2))
                 basicFacilities 0
            / real (length basicFacilities);
          accessibilityScore = calculateFacilityDistribution fs r;
          personalScore = calculatePersonalFacilityScore fs userNeeds;
          statusScore = calculateFacilityStatus fs
      in basicScore * 0.3 + accessibilityScore * 0.25 + personalScore * 0.25
         + statusScore * 0.2)"

definition calculatePathQuality :: "route \<Rightarrow> real" where
  "calculatePathQuality r =
     (let score0 = 0.5;
          surface = num_or (surfaceQuality r) 0.7;
          score1 = score0 + surface * 0.3;
          grad = num_or (gradient r) 0.05;
          gradientScore = max 0 (1 - grad * 10);
          score2 = score1 + gradientScore * 0.2;
          sfty = num_or (safety r) 0.8;
          score3 = score2 + sfty * 0.3;
          scen = num_or (scenery r) 0.6;
          score4 = score3 + scen * 0.2
      in min 1 score4)"

text \<open>\<^verbatim>\<open>Object.keys(preferences).length === 0\<close>: no property is set.\<close>

definition no_keys :: "preferences \<Rightarrow> bool" where
  "no_keys p \<longleftrightarrow>
     needs p = None \<and> preferredDistance p = None \<and> difficultyLevel p = None
     \<and> interests p = None \<and> preferredDuration p = None \<and> prioritizeWildlife p = None
     \<and> weatherSensitive p = None \<and> facilityDependent p = None
     \<and> prioritizePathQuality p = None"

text \<open>The four additions of \<^verbatim>\<open>calculatePersonalPreference\<close>, in the order of the
  source.\<close>

definition distance_pref :: "route \<Rightarrow> preferences \<Rightarrow> real \<Rightarrow> real" where
  "distance_pref r p sc =
     (case preferredDistance p of
        Some pd \<Rightarrow>
          if pd \<noteq> 0
          then (let distanceDiff = \<bar>num_or (distance r) 1000 - pd\<bar>;
                    dScore = max 0 (1 - distanceDiff / pd)
                in sc + dScore * 0.3)
          else sc
      | None \<Rightarrow> sc)"

definition difficulty_pref :: "route \<Rightarrow> preferences \<Rightarrow> real \<Rightarrow> real" where
  "difficulty_pref r p sc =
     (if truthy_str (difficultyLevel p)
      then (let routeDifficulty = str_or (difficulty r) ''easy'';
                matchScore = (if Some routeDifficulty = difficultyLevel p then 1 else 0.5)
            in sc + matchScore * 0.2)
      else sc)"

definition interest_pref :: "route \<Rightarrow> preferences \<Rightarrow> real \<Rightarrow> real" where
  "interest_pref r p sc =
     (case (interests p, themes r) of
        (Some ints, Some ths) \<Rightarrow>
          (let commonInterests = filter (\<lambda>interest. interest \<in> set ths) ints;
               interestScore = real (length commonInterests) / max 1 (real (length ints))
           in sc + interestScore * 0.3)
      | _ \<Rightarrow> sc)"

definition duration_pref :: "route \<Rightarrow> preferences \<Rightarrow> real \<Rightarrow> real" where
  "duration_pref r p sc =
     (case preferredDuration p of
        Some pd \<Rightarrow>
          if pd \<noteq> 0
          then (let timeDiff = \<bar>num_or (estimatedTime r) 30 - pd\<bar>;
                    timeScore = max 0 (1 - timeDiff / pd)
                in sc + timeScore * 0.2)
          else sc
      | None \<Rightarrow> sc)"

definition calculatePersonalPreference :: "route \<Rightarrow> preferences \<Rightarrow> real" where
  "calculatePersonalPreference r p =
     (if no_keys p then 0.5
      else min 1 (duration_pref r p (interest_pref r p (difficulty_pref r p
                    (distance_pref r p 0.5)))))"

subsection \<open>Reasons\<close>

text \<open>The reason strings, one constructor for each string of the source, in the order
  in which \<^verbatim>\<open>generateReasons\<close> may push them.\<close>

datatype reason =
  WeatherGood | WeatherCaution | WildlifeHigh | WildlifeSome | FacilityGood | FacilityFew
  | PathGood | PathChallenging | PersonalMatch | ForWildlifeLovers | WeatherFriendly

definition generateReasons ::
  "real \<Rightarrow> real \<Rightarrow> real \<Rightarrow> real \<Rightarrow> real \<Rightarrow> preferences \<Rightarrow> reason list" where
  "generateReasons weatherScore wildlifeScore facilityScore pathScore personalScore p =
     (let reasons =
            (if weatherScore > 0.8 then [WeatherGood]
             else if weatherScore < 0.4 then [WeatherCaution] else [])
          @ (if wildlifeScore > 0.7 then [WildlifeHigh]
             else if wildlifeScore > 0.5 then [WildlifeSome] else [])
          @ (if facilityScore > 0.8 then [FacilityGood]
             else if facilityScore < 0.4 then [FacilityFew] else [])
          @ (if pathScore > 0.8 then [PathGood]
             else if pathScore < 0.5 then [PathChallenging] else [])
          @ (if personalScore > 0.7 then [PersonalMatch] else [])
          @ (if truthy_flag (prioritizeWildlife p) \<and> wildlifeScore > 0.6
             then [ForWildlifeLovers] else [])
          @ (if truthy_flag (weatherSensitive p) \<and> weatherScore > 0.7
             then [WeatherFriendly] else [])
      in take 3 reasons)"

subsection \<open>The composite score\<close>

text \<open>The object returned by \<^verbatim>\<open>calculateScore\<close>:
  \<^verbatim>\<open>{total, breakdown, weights, reasons}\<close>.\<close>

record breakdown =
  bd_weather :: real
  bd_wildlife :: real
  bd_facility :: real
  bd_path :: real
  bd_personal :: real

record score_result =
  total :: real
  breakdown :: breakdown
  weights :: weights
  reasons :: "reason list"

text \<open>The five sub-scores before rounding, in the order weather, wildlife, facility,
  path, personal. \<open>now_hour\<close> is the hour of \<^verbatim>\<open>new Date()\<close>, read when the
  context has no time.\<close>

definition sub_scores :: "route \<Rightarrow> preferences \<Rightarrow> ctx \<Rightarrow> nat \<Rightarrow> breakdown" where
  "sub_scores r p c now_hour =
     \<lparr>bd_weather = calculateWeatherScore r (dflt (weather c) empty_weather),
      bd_wildlife = calculateWildlifeScore r (dflt (time c) now_hour) (str_or (season c) ''spring''),
      bd_facility = calculateFacilityScore r (dflt (needs p) []),
      bd_path = calculatePathQuality r,
      bd_personal = calculatePersonalPreference r p\<rparr>"

text \<open>The sum \<^verbatim>\<open>weatherScore * weights.environment + ...\<close> of five
  dimension values under a weight profile, and rounding to two decimals,
  \<^verbatim>\<open>Math.round(x * 100) / 100\<close>.\<close>

definition weighted_sum :: "breakdown \<Rightarrow> weights \<Rightarrow> real" where
  "weighted_sum b w =
     bd_weather b * environment w + bd_wildlife b * wildlife w + bd_facility b * facility w
     + bd_path b * path w + bd_personal b * personal w"

definition round2 :: "real \<Rightarrow> real" where
  "round2 x = js_round (x * 100) / 100"

text \<open>\<^verbatim>\<open>calculateScore(route, preferences, context)\<close>, for a preferences object
  and a context object (the defaults of the two parameters are the empty objects
  below).\<close>

definition calculateScore :: "route \<Rightarrow> preferences \<Rightarrow> ctx \<Rightarrow> nat \<Rightarrow> score_result" where
  "calculateScore r p c now_hour =
     (let s = sub_scores r p c now_hour;
          ws = adjustWeights (Some p);
          totalScore = weighted_sum s ws
      in \<lparr>total = round2 totalScore,
          breakdown = \<lparr>bd_weather = round2 (bd_weather s),
                       bd_wildlife = round2 (bd_wildlife s),
                       bd_facility = round2 (bd_facility s),
                       bd_path = round2 (bd_path s),
                       bd_personal = round2 (bd_personal s)\<rparr>,
          weights = ws,
          reasons = generateReasons (bd_weather s) (bd_wildlife s) (bd_facility s)
                      (bd_path s) (bd_personal s) p\<rparr>)"

text \<open>The empty objects \<^verbatim>\<open>{}\<close> of the three kinds.\<close>

definition empty_route :: route where
  "empty_route =
     \<lparr>distance = None, estimatedTime = None, difficulty = None, accessible = None,
      facilities = None, wildlifeData = None, species = None, wildlifeHistory = None,
      recentSightings = None, shelterCoverage = None, shadeCoverage = None,
      exposureLevel = None, nearWater = None, vegetationCoverage = None,
      crowdDensity = None, surfaceQuality = None, gradient = None, safety = None,
      scenery = None, themes = None, startPoint = None\<rparr>"

definition empty_preferences :: preferences where
  "empty_preferences =
     \<lparr>needs = None, preferredDistance = None, difficultyLevel = None, interests = None,
      preferredDuration = None, prioritizeWildlife = None, weatherSensitive = None,
      facilityDependent = None, prioritizePathQuality = None\<rparr>"


subsection \<open>Recommendation\<close>

text \<open>The object \<^verbatim>\<open>userFilters\<close>. Its properties \<^verbatim>\<open>difficulty\<close>,
  \<^verbatim>\<open>accessible\<close> and \<^verbatim>\<open>weather\<close> carry the prefix \<open>filter_\<close> here,
  to keep them apart from the properties of a route and of a context.\<close>

record filters =
  maxDistance :: "real option"
  minDistance :: "real option"
  maxDuration :: "real option"
  filter_difficulty :: "string option"
  filter_accessible :: "bool option"
  filter_weather :: "weatherData option"

text \<open>\<^verbatim>\<open>a > b\<close> and \<^verbatim>\<open>a < b\<close> where \<open>a\<close> may be
  \<^verbatim>\<open>undefined\<close>: the comparison is then false.\<close>

definition num_gt :: "real option \<Rightarrow> real \<Rightarrow> bool" where
  "num_gt a b = (case a of None \<Rightarrow> False | Some x \<Rightarrow> x > b)"

definition num_lt :: "real option \<Rightarrow> real \<Rightarrow> bool" where
  "num_lt a b = (case a of None \<Rightarrow> False | Some x \<Rightarrow> x < b)"

text \<open>\<^verbatim>\<open>meetsBasicCriteria(route, filters)\<close>: each test is guarded by the
  truthiness of its filter value.\<close>

definition meetsBasicCriteria :: "route \<Rightarrow> filters \<Rightarrow> bool" where
  "meetsBasicCriteria r f =
     (if truthy_num (maxDistance f) \<and> num_gt (distance r) (dflt (maxDistance f) 0) then False
      else if truthy_num (minDistance f) \<and> num_lt (distance r) (dflt (minDistance f) 0) then False
      else if truthy_num (maxDuration f) \<and> num_gt (estimatedTime r) (dflt (maxDuration f) 0)
        then False
      else if truthy_str (filter_difficulty f) \<and> difficulty r \<noteq> filter_difficulty f then False
      else if truthy_flag (filter_accessible f) \<and> \<not> truthy_flag (accessible r) then False
      else True)"

text \<open>\<^verbatim>\<open>areRoutesSimilar(route1, route2)\<close>. When a distance is missing, or when
  the greater distance is 0, the quotient is \<^verbatim>\<open>NaN\<close> or
  \<^verbatim>\<open>Infinity\<close> and the comparison \<^verbatim>\<open>< 0.2\<close> is false.\<close>

definition areRoutesSimilar :: "route \<Rightarrow> route \<Rightarrow> bool" where
  "areRoutesSimilar route1 route2 =
     (let themes1 = dflt (themes route1) [];
          themes2 = dflt (themes route2) [];
          commonThemes = filter (\<lambda>theme. theme \<in> set themes2) themes1;
          themeSimilarity = real (length commonThemes)
                            / max (max (real (length themes1)) (real (length themes2))) 1
      in (case (distance route1, distance route2) of
            (Some d1, Some d2) \<Rightarrow>
              max d1 d2 \<noteq> 0 \<and> \<bar>d1 - d2\<bar> / max d1 d2 < 0.2 \<and> themeSimilarity > 0.6
          | _ \<Rightarrow> False))"

text \<open>The similarity rule in the words of the specification: the relative distance
  difference \<open>|d1 - d2| / max(d1, d2)\<close> is below 0.20, and the theme-overlap ratio,
  (common themes) / max(theme count of either route, 1), is above 0.60. The distance
  difference is defined for two routes that both carry a distance, the greater of which is
  not 0.\<close>

definition relative_distance_difference :: "real \<Rightarrow> real \<Rightarrow> real" where
  "relative_distance_difference d1 d2 = \<bar>d1 - d2\<bar> / max d1 d2"

definition theme_overlap_ratio :: "string list \<Rightarrow> string list \<Rightarrow> real" where
  "theme_overlap_ratio ts1 ts2 =
     real (length (filter (\<lambda>t. t \<in> set ts2) ts1))
     / real (max (max (length ts1) (length ts2)) 1)"

definition similar_rule :: "route \<Rightarrow> route \<Rightarrow> bool" where
  "similar_rule r1 r2 \<longleftrightarrow>
     (case (distance r1, distance r2) of
        (Some d1, Some d2) \<Rightarrow> max d1 d2 \<noteq> 0 \<and> relative_distance_difference d1 d2 < 0.2
      | _ \<Rightarrow> False)
     \<and> theme_overlap_ratio (dflt (themes r1) []) (dflt (themes r2) []) > 0.6"

text \<open>An element of \<^verbatim>\<open>scoredRoutes\<close>: the route (\<^verbatim>\<open>...route\<close>) with
  its score data.\<close>

record scored_route =
  route :: route
  score :: real
  sr_breakdown :: breakdown
  sr_weights :: weights
  sr_reasons :: "reason list"
  distanceFromUser :: "real option"
  distanceScore :: real

text \<open>\<^verbatim>\<open>getCurrentWeather()\<close> and \<^verbatim>\<open>getCurrentSeason()\<close>, the latter
  on the month (1 to 12) of the clock.\<close>

definition getCurrentWeather :: weatherData where
  "getCurrentWeather =
     \<lparr>precipitation = Some 0, temperature = Some 18, windSpeed = Some 8,
      humidity = Some 65, sunny = Some True\<rparr>"

definition getCurrentSeason :: "nat \<Rightarrow> string" where
  "getCurrentSeason month =
     (if month \<ge> 3 \<and> month \<le> 5 then ''spring''
      else if month \<ge> 6 \<and> month \<le> 8 then ''summer''
      else if month \<ge> 9 \<and> month \<le> 11 then ''autumn''
      else ''winter'')"

text \<open>The body of \<^verbatim>\<open>eligibleRoutes.map\<close>. With a user location, the
  property \<^verbatim>\<open>distanceFromUser\<close> calls \<^verbatim>\<open>calculateDistance\<close> on
  \<^verbatim>\<open>route.startPoint\<close> without the guard that \<open>dScore\<close> has, and reading
  \<^verbatim>\<open>point2.lat\<close> of a missing start point throws.\<close>

definition score_entry ::
  "geo_point option \<Rightarrow> preferences \<Rightarrow> ctx \<Rightarrow> nat \<Rightarrow> route \<Rightarrow> js_error + scored_route" where
  "score_entry userLocation userProfile c now_hour r =
     (let scoreResult = calculateScore r userProfile c now_hour;
          dScore = (case (userLocation, startPoint r) of
                      (Some u, Some sp) \<Rightarrow> max 0 (1 - calculateDistance u sp / 5000)
                    | _ \<Rightarrow> 0.5)
      in case userLocation of
           None \<Rightarrow>
             Inr \<lparr>route = r, score = total scoreResult, sr_breakdown = breakdown scoreResult,
                  sr_weights = weights scoreResult, sr_reasons = reasons scoreResult,
                  distanceFromUser = None, distanceScore = dScore\<rparr>
         | Some u \<Rightarrow>
             (case startPoint r of
                None \<Rightarrow> Inl TypeError
              | Some sp \<Rightarrow>
                  Inr \<lparr>route = r, score = total scoreResult,
                       sr_breakdown = breakdown scoreResult,
                       sr_weights = weights scoreResult, sr_reasons = reasons scoreResult,
                       distanceFromUser = Some (calculateDistance u sp),
                       distanceScore = dScore\<rparr>))"

text \<open>\<^verbatim>\<open>Array.prototype.map\<close> with a callback that may throw.\<close>

fun map_result :: "('a \<Rightarrow> js_error + 'b) \<Rightarrow> 'a list \<Rightarrow> js_error + 'b list" where
  "map_result f [] = Inr []"
| "map_result f (x # xs) =
     (case f x of
        Inl e \<Rightarrow> Inl e
      | Inr y \<Rightarrow> (case map_result f xs of Inl e \<Rightarrow> Inl e | Inr ys \<Rightarrow> Inr (y # ys)))"

text \<open>The comparator passed to \<^verbatim>\<open>sort\<close>.\<close>

definition compareRoutes :: "scored_route \<Rightarrow> scored_route \<Rightarrow> real" where
  "compareRoutes a b =
     (let scoreDiff = score b - score a
      in if \<bar>scoreDiff\<bar> < 0.1 then distanceScore a - distanceScore b else scoreDiff)"

text \<open>\<^verbatim>\<open>Array.prototype.sort\<close> with a comparator, as a stable insertion sort:
  \<open>x\<close> stays before \<open>y\<close> when \<open>cmp x y \<le> 0\<close>. The language fixes the result only
  for a consistent comparator; the theorems below use of the sort only that it permutes
  its input, except where they sort two elements.\<close>

fun insert_by :: "('a \<Rightarrow> 'a \<Rightarrow> real) \<Rightarrow> 'a \<Rightarrow> 'a list \<Rightarrow> 'a list" where
  "insert_by cmp x [] = [x]"
| "insert_by cmp x (y # ys) =
     (if cmp x y \<le> 0 then x # y # ys else y # insert_by cmp x ys)"

definition js_sort :: "('a \<Rightarrow> 'a \<Rightarrow> real) \<Rightarrow> 'a list \<Rightarrow> 'a list" where
  "js_sort cmp xs = foldr (insert_by cmp) xs []"

text \<open>The loop \<^verbatim>\<open>for (let i = 2; i < sortedRoutes.length; i++)\<close> that looks
  for a replacement of \<^verbatim>\<open>top2[1]\<close>, and the selection step around it.\<close>

function replace_second ::
  "scored_route list \<Rightarrow> scored_route list \<Rightarrow> nat \<Rightarrow> scored_route list" where
  "replace_second top2 sortedRoutes i =
     (if i < length sortedRoutes
      then (if \<not> areRoutesSimilar (route (top2 ! 0)) (route (sortedRoutes ! i))
            then top2[1 := sortedRoutes ! i]
            else replace_second top2 sortedRoutes (i + 1))
      else top2)"
  by pat_completeness auto

termination
  by (relation "measure (\<lambda>(top2, sortedRoutes, i). length sortedRoutes - i)") auto

declare replace_second.simps [simp del]

definition select_top2 :: "scored_route list \<Rightarrow> scored_route list" where
  "select_top2 sortedRoutes =
     (let top2 = take 2 sortedRoutes
      in if length top2 = 2 \<and> areRoutesSimilar (route (top2 ! 0)) (route (top2 ! 1))
         then replace_second top2 sortedRoutes 2
         else top2)"

text \<open>\<^verbatim>\<open>recommendRoutes(allRoutes, userFilters, userLocation, userProfile)\<close>
  in its three steps, named after the constants of the source. \<open>now_hour\<close> and
  \<open>now_month\<close> are the readings of \<^verbatim>\<open>new Date()\<close>.\<close>

definition eligibleRoutes :: "route list \<Rightarrow> filters \<Rightarrow> route list" where
  "eligibleRoutes allRoutes userFilters =
     filter (\<lambda>r. meetsBasicCriteria r userFilters) allRoutes"

definition sortedRoutes ::
  "route list \<Rightarrow> filters \<Rightarrow> geo_point option \<Rightarrow> preferences \<Rightarrow> nat \<Rightarrow> nat
   \<Rightarrow> js_error + scored_route list" where
  "sortedRoutes allRoutes userFilters userLocation userProfile now_hour now_month =
     (let c = \<lparr>weather = Some (dflt (filter_weather userFilters) getCurrentWeather),
               time = Some now_hour,
               season = Some (getCurrentSeason now_month)\<rparr>
      in case map_result (score_entry userLocation userProfile c now_hour)
                (eligibleRoutes allRoutes userFilters) of
           Inl e \<Rightarrow> Inl e
         | Inr scoredRoutes \<Rightarrow> Inr (js_sort compareRoutes scoredRoutes))"

definition recommendRoutes ::
  "route list \<Rightarrow> filters \<Rightarrow> geo_point option \<Rightarrow> preferences \<Rightarrow> nat \<Rightarrow> nat
   \<Rightarrow> js_error + scored_route list" where
  "recommendRoutes allRoutes userFilters userLocation userProfile now_hour now_month =
     (if length (eligibleRoutes allRoutes userFilters) = 0 then Inr []
      else (case sortedRoutes allRoutes userFilters userLocation userProfile now_hour now_month of
              Inl e \<Rightarrow> Inl e
            | Inr ranked \<Rightarrow> Inr (select_top2 ranked)))"

text \<open>The filter object \<^verbatim>\<open>{}\<close>.\<close>

definition no_filters :: filters where
  "no_filters = \<lparr>maxDistance = None, minDistance = None, maxDuration = None,
                 filter_difficulty = None, filter_accessible = None, filter_weather = None\<rparr>"

text \<open>A route violates the filters: the four constraints of the selector, each active
  when its filter value is truthy (a non-zero number, a non-empty string,
  \<^verbatim>\<open>true\<close>).\<close>

definition violates_filters :: "filters \<Rightarrow> route \<Rightarrow> bool" where
  "violates_filters f r \<longleftrightarrow>
     (\<exists>m d. maxDistance f = Some m \<and> m \<noteq> 0 \<and> distance r = Some d \<and> d > m)
     \<or> (\<exists>m d. minDistance f = Some m \<and> m \<noteq> 0 \<and> distance r = Some d \<and> d < m)
     \<or> (\<exists>m t. maxDuration f = Some m \<and> m \<noteq> 0 \<and> estimatedTime r = Some t \<and> t > m)
     \<or> (\<exists>d. filter_difficulty f = Some d \<and> d \<noteq> [] \<and> difficulty r \<noteq> Some d)
     \<or> (filter_accessible f = Some True \<and> accessible r \<noteq> Some True)"

text \<open>The entry of a route in \<^verbatim>\<open>scoredRoutes\<close> when no user location is given.\<close>

definition plain_entry :: "preferences \<Rightarrow> ctx \<Rightarrow> nat \<Rightarrow> route \<Rightarrow> scored_route" where
  "plain_entry userProfile c now_hour r =
     (let scoreResult = calculateScore r userProfile c now_hour
      in \<lparr>route = r, score = total scoreResult, sr_breakdown = breakdown scoreResult,
          sr_weights = weights scoreResult, sr_reasons = reasons scoreResult,
          distanceFromUser = None, distanceScore = 0.5\<rparr>)"

subsection \<open>Trail graph\<close>

text \<open>Node ids are the strings \<^verbatim>\<open>`node_${nodeId++}`\<close>: the prefix followed
  by the decimal digits of the counter.\<close>

definition digit_char :: "nat \<Rightarrow> char" where
  "digit_char d = ''0123456789'' ! d"

fun string_of_nat :: "nat \<Rightarrow> string" where
  "string_of_nat n =
     (if n < 10 then [digit_char n]
      else string_of_nat (n div 10) @ [digit_char (n mod 10)])"

declare string_of_nat.simps [simp del]

definition node_name :: "nat \<Rightarrow> string" where
  "node_name n = ''node_'' @ string_of_nat n"

text \<open>\<^verbatim>\<open>Map.prototype.set\<close> on a map kept in insertion order: an existing key
  keeps its place and takes the new value, a new key goes to the end.\<close>

fun map_set :: "'k \<Rightarrow> 'v \<Rightarrow> ('k \<times> 'v) list \<Rightarrow> ('k \<times> 'v) list" where
  "map_set k v [] = [(k, v)]"
| "map_set k v ((k', v') # m) =
     (if k' = k then (k, v) # m else (k', v') # map_set k v m)"

text \<open>A feature of the trail layer. Its geometry may be \<^verbatim>\<open>null\<close>; a coordinate
  is the pair \<^verbatim>\<open>(coord[0], coord[1])\<close>, longitude first.\<close>

record geometry =
  geom_type :: string
  coordinates :: "(real \<times> real) list"

record feature =
  geometry :: "geometry option"

record node =
  node_id :: string
  latlng :: "real \<times> real"
  adj :: "(string \<times> real) list"

record edge =
  e_from :: string
  e_to :: string
  weight :: real

record graph =
  nodes :: "(string \<times> node) list"
  edges :: "edge list"

text \<open>The state of \<^verbatim>\<open>buildTrailGraph\<close> while it runs. Node objects are
  mutated after they were stored (\<^verbatim>\<open>nodeA.adj.set(...)\<close> through the local array
  \<^verbatim>\<open>nodes\<close>), so they live in a heap: an address is an index of \<open>heap\<close>,
  \<open>node_map\<close> is \<^verbatim>\<open>graph.nodes\<close> (id to address), \<open>edge_list\<close> is
  \<^verbatim>\<open>graph.edges\<close> and \<open>nodeId\<close> the counter.\<close>

record builder =
  heap :: "node list"
  node_map :: "(string \<times> nat) list"
  edge_list :: "edge list"
  nodeId :: nat

text \<open>The body of \<^verbatim>\<open>coords.forEach\<close>: allocate the node, store it under its id,
  push its address on the local array.\<close>

definition add_node :: "real \<times> real \<Rightarrow> builder \<times> nat list \<Rightarrow> builder \<times> nat list" where
  "add_node coord = (\<lambda>(b, ns).
     (let ll = (snd coord, fst coord);
          name = node_name (nodeId b);
          a = length (heap b);
          nd = \<lparr>node_id = name, latlng = ll, adj = []\<rparr>
      in (b\<lparr>heap := heap b @ [nd],
             node_map := map_set name a (node_map b),
             nodeId := nodeId b + 1\<rparr>,
          ns @ [a])))"

text \<open>One round of the \<^verbatim>\<open>for\<close> loop: \<open>a\<close> and \<open>b\<close> are
  \<^verbatim>\<open>nodes[i]\<close> and \<^verbatim>\<open>nodes[i + 1]\<close>.\<close>

definition link :: "nat \<Rightarrow> nat \<Rightarrow> builder \<Rightarrow> builder" where
  "link a b st =
     (let nodeA = heap st ! a;
          nodeB = heap st ! b;
          distance = haversine (latlng nodeA) (latlng nodeB);
          h1 = (heap st)[a := nodeA\<lparr>adj := map_set (node_id nodeB) distance (adj nodeA)\<rparr>];
          h2 = h1[b := (h1 ! b)\<lparr>adj := map_set (node_id nodeA) distance (adj (h1 ! b))\<rparr>]
      in st\<lparr>heap := h2,
            edge_list := edge_list st @
              [\<lparr>e_from = node_id nodeA, e_to = node_id nodeB, weight = distance\<rparr>]\<rparr>)"

text \<open>The loop \<^verbatim>\<open>for (i = 0; i < nodes.length - 1; i++)\<close> over the consecutive
  pairs of the local array.\<close>

fun connect :: "nat list \<Rightarrow> builder \<Rightarrow> builder" where
  "connect (a # b # rest) st = connect (b # rest) (link a b st)"
| "connect ns st = st"

text \<open>The body of \<^verbatim>\<open>trailFeatures.forEach\<close>. Reading
  \<^verbatim>\<open>feature.geometry.type\<close> of a feature without geometry throws.\<close>

definition add_feature :: "feature \<Rightarrow> builder \<Rightarrow> js_error + builder" where
  "add_feature f b =
     (case geometry f of
        None \<Rightarrow> Inl TypeError
      | Some g \<Rightarrow>
          if geom_type g = ''LineString''
          then (case fold add_node (coordinates g) (b, []) of (b1, ns) \<Rightarrow> Inr (connect ns b1))
          else Inr b)"

fun add_features :: "feature list \<Rightarrow> builder \<Rightarrow> js_error + builder" where
  "add_features [] b = Inr b"
| "add_features (f # fs) b =
     (case add_feature f b of Inl e \<Rightarrow> Inl e | Inr b' \<Rightarrow> add_features fs b')"

definition empty_builder :: builder where
  "empty_builder = \<lparr>heap = [], node_map = [], edge_list = [], nodeId = 0\<rparr>"

text \<open>The returned graph: \<^verbatim>\<open>graph.nodes\<close> with every node object read from
  the heap as it is when the function returns.\<close>

definition buildTrailGraph :: "feature list \<Rightarrow> js_error + graph" where
  "buildTrailGraph trailFeatures =
     (case add_features trailFeatures empty_builder of
        Inl e \<Rightarrow> Inl e
      | Inr b \<Rightarrow> Inr \<lparr>nodes = map (\<lambda>(k, a). (k, heap b ! a)) (node_map b),
                      edges = edge_list b\<rparr>)"

text \<open>A \<^verbatim>\<open>LineString\<close> feature with the given coordinates.\<close>

definition line :: "(real \<times> real) list \<Rightarrow> feature" where
  "line cs = \<lparr>geometry = Some \<lparr>geom_type = ''LineString'', coordinates = cs\<rparr>\<rparr>"

text \<open>The number of coordinates a feature contributes: those of a
  \<^verbatim>\<open>LineString\<close>, none otherwise.\<close>

definition line_coords :: "feature \<Rightarrow> nat" where
  "line_coords f =
     (case geometry f of
        None \<Rightarrow> 0
      | Some g \<Rightarrow> if geom_type g = ''LineString'' then length (coordinates g) else 0)"

text \<open>Invariants of the builder, used in the proofs: ids and addresses are both the
  counter values below \<open>nodeId\<close>, and every edge joins two consecutive nodes whose
  adjacency maps hold the edge weight in both directions.\<close>

definition wf_builder :: "builder \<Rightarrow> bool" where
  "wf_builder b \<longleftrightarrow>
     length (heap b) = nodeId b
     \<and> node_map b = map (\<lambda>k. (node_name k, k)) [0..<nodeId b]
     \<and> (\<forall>k<nodeId b. node_id (heap b ! k) = node_name k)"

definition edge_at :: "node list \<Rightarrow> nat \<Rightarrow> edge \<Rightarrow> bool" where
  "edge_at h i e \<longleftrightarrow>
     e_from e = node_name i \<and> e_to e = node_name (Suc i)
     \<and> map_of (adj (h ! i)) (node_name (Suc i)) = Some (weight e)
     \<and> map_of (adj (h ! Suc i)) (node_name i) = Some (weight e)"

definition edges_inv :: "builder \<Rightarrow> nat \<Rightarrow> bool" where
  "edges_inv b m \<longleftrightarrow>
     (\<forall>e\<in>set (edge_list b). \<exists>i. i < m \<and> Suc i < nodeId b \<and> edge_at (heap b) i e)"

subsection \<open>Shortest path\<close>

text \<open>A distance estimate: a number or \<^verbatim>\<open>Infinity\<close>. A value of type
  \<open>dist option\<close> is what \<^verbatim>\<open>distances.get\<close> or an addition returns, with
  \<open>None\<close> for \<^verbatim>\<open>undefined\<close> and \<^verbatim>\<open>NaN\<close>, on which every
  comparison is false.\<close>

datatype dist = Finite real | Infinity

fun dist_lt :: "dist option \<Rightarrow> dist option \<Rightarrow> bool" where
  "dist_lt (Some (Finite a)) (Some (Finite b)) = (a < b)"
| "dist_lt (Some (Finite a)) (Some Infinity) = True"
| "dist_lt x y = False"

fun dist_add :: "dist option \<Rightarrow> real \<Rightarrow> dist option" where
  "dist_add (Some (Finite a)) w = Some (Finite (a + w))"
| "dist_add (Some Infinity) w = Some Infinity"
| "dist_add None w = None"

text \<open>\<^verbatim>\<open>Set.prototype.add\<close> on a set kept in insertion order.\<close>

definition set_add :: "'a \<Rightarrow> 'a list \<Rightarrow> 'a list" where
  "set_add x xs = (if x \<in> set xs then xs else xs @ [x])"

text \<open>The scan for the unvisited node with the least estimate; the first one wins a
  tie.\<close>

definition scan_step ::
  "(string \<rightharpoonup> dist) \<Rightarrow> string \<Rightarrow> string option \<times> dist \<Rightarrow> string option \<times> dist" where
  "scan_step distances = (\<lambda>nodeId (current, minDist).
     if dist_lt (distances nodeId) (Some minDist)
     then (case distances nodeId of Some d \<Rightarrow> (Some nodeId, d) | None \<Rightarrow> (current, minDist))
     else (current, minDist))"

definition select_min :: "(string \<rightharpoonup> dist) \<Rightarrow> string list \<Rightarrow> string option \<times> dist" where
  "select_min distances unvisited = fold (scan_step distances) unvisited (None, Infinity)"

text \<open>The body of the loop over \<^verbatim>\<open>currentNode.adj\<close>.\<close>

definition relax ::
  "string \<Rightarrow> string list \<Rightarrow> string \<times> real \<Rightarrow>
   (string \<rightharpoonup> dist) \<times> (string \<rightharpoonup> string) \<Rightarrow> (string \<rightharpoonup> dist) \<times> (string \<rightharpoonup> string)" where
  "relax current unvisited = (\<lambda>(neighborId, w) (distances, previous).
     if neighborId \<in> set unvisited
     then (let alt = dist_add (distances current) w
           in if dist_lt alt (distances neighborId)
              then (case alt of
                      Some d \<Rightarrow> (distances(neighborId \<mapsto> d), previous(neighborId \<mapsto> current))
                    | None \<Rightarrow> (distances, previous))
              else (distances, previous))
     else (distances, previous))"

text \<open>The \<^verbatim>\<open>while (unvisited.size > 0)\<close> loop; it returns the predecessor map.
  \<^verbatim>\<open>!current\<close> holds for \<^verbatim>\<open>null\<close> and for the empty string.\<close>

function dijkstra_loop ::
  "graph \<Rightarrow> string \<Rightarrow> (string \<rightharpoonup> dist) \<times> (string \<rightharpoonup> string) \<times> string list
   \<Rightarrow> js_error + (string \<rightharpoonup> string)" where
  "dijkstra_loop g endId (distances, previous, unvisited) =
     (if unvisited = [] then Inr previous
      else (case select_min distances unvisited of
              (None, minDist) \<Rightarrow> Inr previous
            | (Some current, minDist) \<Rightarrow>
                if current = [] \<or> minDist = Infinity then Inr previous
                else if current = endId then Inr previous
                else (case map_of (nodes g) current of
                        None \<Rightarrow> Inl TypeError
                      | Some currentNode \<Rightarrow>
                          (case fold (relax current (removeAll current unvisited))
                                  (adj currentNode) (distances, previous) of
                             (distances', previous') \<Rightarrow>
                               dijkstra_loop g endId
                                 (distances', previous', removeAll current unvisited)))))"
  by pat_completeness auto
termination
proof -
  have scan: "fold (scan_step distances) us acc = (Some c, m) \<Longrightarrow>
                c \<in> set us \<or> fst acc = Some c" for distances us acc c m
  proof (induction us arbitrary: acc)
    case Nil
    then show ?case by simp
  next
    case (Cons u us)
    from Cons.IH [of "scan_step distances u acc"] Cons.prems
    show ?case
      by (auto simp: scan_step_def split: prod.splits if_splits option.splits)
  qed
  have mem: "length (removeAll c unvisited) < length unvisited"
    if "select_min distances unvisited = (Some c, m)" for distances unvisited c m
    using scan [of distances unvisited "(None, Infinity)" c m] that
    by (simp add: select_min_def length_removeAll_less)
  show ?thesis
    by (relation "measure (\<lambda>(g, endId, distances, previous, unvisited). length unvisited)")
      (auto dest: mem mem [OF sym])
qed

declare dijkstra_loop.simps [simp del]

text \<open>The loop \<^verbatim>\<open>while (current) { path.unshift(current); current =
  previous.get(current) }\<close>, with \<open>pth\<close> for the array \<^verbatim>\<open>path\<close>. Nothing in its own text bounds it, so it is a partial
  function: \<open>None\<close> stands for a walk that never ends.\<close>

partial_function (option) walk_back ::
  "(string \<rightharpoonup> string) \<Rightarrow> string option \<Rightarrow> string list \<Rightarrow> string list option" where
  "walk_back previous current pth =
     (case current of
        None \<Rightarrow> Some pth
      | Some c \<Rightarrow> if c = [] then Some pth else walk_back previous (previous c) (c # pth))"

text \<open>The first loop of \<^verbatim>\<open>dijkstra\<close>: every key of \<^verbatim>\<open>graph.nodes\<close>
  gets the estimate \<^verbatim>\<open>Infinity\<close> and joins \<^verbatim>\<open>unvisited\<close>.\<close>

definition init_search ::
  "graph \<Rightarrow> (string \<rightharpoonup> dist) \<times> string list" where
  "init_search g =
     fold (\<lambda>nodeId (distances, unvisited).
             (distances(nodeId \<mapsto> Infinity), set_add nodeId unvisited))
          (map fst (nodes g)) (Map.empty, [])"

text \<open>\<^verbatim>\<open>dijkstra(startId, endId)\<close> with the global \<^verbatim>\<open>trailGraph\<close> as a
  parameter (\<open>None\<close> when it is \<^verbatim>\<open>null\<close>). The result is \<open>None\<close> when the
  call does not return, \<open>Some (Inl e)\<close> when it throws, \<open>Some (Inr None)\<close> when it
  returns \<^verbatim>\<open>null\<close> and \<open>Some (Inr (Some p))\<close> when it returns the path
  \<open>p\<close>.\<close>

definition dijkstra ::
  "graph option \<Rightarrow> string \<Rightarrow> string \<Rightarrow> (js_error + string list option) option" where
  "dijkstra trailGraph startId endId =
     (case trailGraph of
        None \<Rightarrow> Some (Inr None)
      | Some g \<Rightarrow>
          (case init_search g of
             (distances0, unvisited) \<Rightarrow>
               (case dijkstra_loop g endId (distances0(startId \<mapsto> Finite 0), Map.empty, unvisited) of
                  Inl e \<Rightarrow> Some (Inl e)
                | Inr previous \<Rightarrow>
                    (case walk_back previous (Some endId) [] of
                       None \<Rightarrow> None
                     | Some pth \<Rightarrow> Some (Inr (if 1 < length pth then Some pth else None))))))"

text \<open>The graph of a single trail with two points.\<close>

definition two_node_graph :: graph where
  "two_node_graph =
     \<lparr>nodes =
        [(''node_0'', \<lparr>node_id = ''node_0'', latlng = (51, 0),
                       adj = [(''node_1'', haversine (51, 0) (52, 0))]\<rparr>),
         (''node_1'', \<lparr>node_id = ''node_1'', latlng = (52, 0),
                       adj = [(''node_0'', haversine (51, 0) (52, 0))]\<rparr>)],
      edges = [\<lparr>e_from = ''node_0'', e_to = ''node_1'', weight = haversine (51, 0) (52, 0)\<rparr>]\<rparr>"

subsection \<open>Valid routes and sample data\<close>








text \<open>Concrete routes\<close>

definition park_loop :: route where
  "park_loop = empty_route\<lparr>distance := Some 1200, themes := Some [''lake'']\<rparr>"

definition hill_trail :: route where
  "hill_trail = empty_route\<lparr>distance := Some 3000, themes := Some [''hill'']\<rparr>"

text \<open>Five routes around a lake. \<open>lake_circuit\<close> is 5% shorter than \<open>lakeside\<close> and
  shares 4 of its 5 themes, \<open>shore_path\<close> is 2% shorter with the same themes;
  \<open>long_lakeside\<close> has the same themes and twice the length; \<open>city_walk\<close> is 1%
  shorter and shares no theme.\<close>

definition lakeside :: route where
  "lakeside = empty_route
     \<lparr>distance := Some 1000,
      themes := Some [''lake'', ''birds'', ''wood'', ''hill'', ''river'']\<rparr>"

definition lake_circuit :: route where
  "lake_circuit = empty_route
     \<lparr>distance := Some 950,
      themes := Some [''lake'', ''birds'', ''wood'', ''hill'', ''meadow'']\<rparr>"

definition shore_path :: route where
  "shore_path = empty_route
     \<lparr>distance := Some 980,
      themes := Some [''lake'', ''birds'', ''wood'', ''hill'', ''river'']\<rparr>"

definition long_lakeside :: route where
  "long_lakeside = empty_route
     \<lparr>distance := Some 2000,
      themes := Some [''lake'', ''birds'', ''wood'', ''hill'', ''river'']\<rparr>"

definition city_walk :: route where
  "city_walk = empty_route\<lparr>distance := Some 990, themes := Some [''city'', ''market'']\<rparr>"

definition june_noon :: ctx where
  "june_noon = \<lparr>weather = Some getCurrentWeather, time = Some 12, season = Some ''summer''\<rparr>"

definition zero_max :: filters where
  "zero_max = no_filters\<lparr>maxDistance := Some 0\<rparr>"

definition origin :: geo_point where
  "origin = \<lparr>lat = 0, lng = 0\<rparr>"

definition antipode :: geo_point where
  "antipode = \<lparr>lat = 0, lng = 180\<rparr>"

definition near_route :: route where
  "near_route = empty_route\<lparr>startPoint := Some origin\<rparr>"

definition far_route :: route where
  "far_route = empty_route\<lparr>startPoint := Some antipode\<rparr>"

definition short_only :: filters where
  "short_only = no_filters\<lparr>maxDistance := Some 2000\<rparr>"

text \<open>The entry of a route that starts at \<open>sp\<close> when the user is at \<open>u\<close>.\<close>

definition located_entry ::
  "geo_point \<Rightarrow> preferences \<Rightarrow> ctx \<Rightarrow> nat \<Rightarrow> route \<Rightarrow> geo_point \<Rightarrow> scored_route" where
  "located_entry u userProfile c now_hour r sp =
     (let scoreResult = calculateScore r userProfile c now_hour
      in \<lparr>route = r, score = total scoreResult, sr_breakdown = breakdown scoreResult,
          sr_weights = weights scoreResult, sr_reasons = reasons scoreResult,
          distanceFromUser = Some (calculateDistance u sp),
          distanceScore = max 0 (1 - calculateDistance u sp / 5000)\<rparr>)"

section \<open>Weight adjustment\<close>

text \<open>Evaluation of the rounding on numerals, and the exact values of the weights.\<close>

lemmas fl_eval = fl_def fl_scaled_def bexp_def up_exp.simps down_exp.simps round_even_def
  round_pick_def scale2_def

text \<open>Two familiar facts of double arithmetic, as a check of \<open>fl\<close>: the double of
  \<open>0.1\<close> is \<open>3602879701896397 / 2^55\<close>, and \<^verbatim>\<open>0.1 + 0.2\<close> evaluates to
  \<open>0.30000000000000004\<close>, one unit in the last place above the double of \<open>0.3\<close>.\<close>

lemma fl_examples:
  "fl 0.1 = 3602879701896397 / 2 ^ 55"
  "fl (fl 0.1 + fl 0.2) = 5404319552844596 / 2 ^ 54"
  "fl 0.3 = 5404319552844595 / 2 ^ 54"
  "fl (- 2.5) = - 2.5" "fl 1 = 1" "fl (2 ^ 53 + 1) = 2 ^ 53" "fl (2 ^ 53 + 3) = 2 ^ 53 + 4"
  by (simp_all add: fl_eval)

lemma default_values:
  "defaultWeights =
     \<lparr>environment = 5404319552844595 / 2 ^ 54, wildlife = 1 / 4,
      facility = 3602879701896397 / 2 ^ 54, path = 5404319552844595 / 2 ^ 55,
      personal = 3602879701896397 / 2 ^ 55\<rparr>"
  by (simp add: defaultWeights_def fl_eval)

lemma wildlife_step_fields:
  "environment (wildlife_step p w) =
     (if truthy_flag (prioritizeWildlife p) then fl (environment w - fl 0.1) else environment w)"
  "wildlife (wildlife_step p w) =
     (if truthy_flag (prioritizeWildlife p) then fl (wildlife w + fl 0.15) else wildlife w)"
  "facility (wildlife_step p w) =
     (if truthy_flag (prioritizeWildlife p) then fl (facility w - fl 0.05) else facility w)"
  "path (wildlife_step p w) = path w"
  "personal (wildlife_step p w) = personal w"
  by (simp_all add: wildlife_step_def)

lemma weather_step_fields:
  "environment (weather_step p w) =
     (if truthy_flag (weatherSensitive p) then fl (environment w + fl 0.2) else environment w)"
  "wildlife (weather_step p w) =
     (if truthy_flag (weatherSensitive p) then fl (wildlife w - fl 0.1) else wildlife w)"
  "facility (weather_step p w) = facility w"
  "path (weather_step p w) =
     (if truthy_flag (weatherSensitive p) then fl (path w - fl 0.1) else path w)"
  "personal (weather_step p w) = personal w"
  by (simp_all add: weather_step_def)

lemma facility_step_fields:
  "environment (facility_step p w) = environment w"
  "wildlife (facility_step p w) =
     (if truthy_flag (facilityDependent p) then fl (wildlife w - fl 0.05) else wildlife w)"
  "facility (facility_step p w) =
     (if truthy_flag (facilityDependent p) then fl (facility w + fl 0.15) else facility w)"
  "path (facility_step p w) =
     (if truthy_flag (facilityDependent p) then fl (path w - fl 0.1) else path w)"
  "personal (facility_step p w) = personal w"
  by (simp_all add: facility_step_def)

lemma path_step_fields:
  "environment (path_step p w) =
     (if truthy_flag (prioritizePathQuality p) then fl (environment w - fl 0.1) else environment w)"
  "wildlife (path_step p w) = wildlife w"
  "facility (path_step p w) = facility w"
  "path (path_step p w) =
     (if truthy_flag (prioritizePathQuality p) then fl (path w + fl 0.15) else path w)"
  "personal (path_step p w) =
     (if truthy_flag (prioritizePathQuality p) then fl (personal w - fl 0.05) else personal w)"
  by (simp_all add: path_step_def)

lemma default_fields:
  "environment defaultWeights = 5404319552844595 / 2 ^ 54" "wildlife defaultWeights = 1 / 4"
  "facility defaultWeights = 3602879701896397 / 2 ^ 54"
  "path defaultWeights = 5404319552844595 / 2 ^ 55"
  "personal defaultWeights = 3602879701896397 / 2 ^ 55"
  by (simp_all add: default_values)

lemmas step_fields = wildlife_step_fields weather_step_fields facility_step_fields
  path_step_fields default_fields

lemma adjustWeights_Some:
  "adjustWeights (Some p) =
     path_step p (facility_step p (weather_step p (wildlife_step p defaultWeights)))"
  by (simp add: adjustWeights_def)

lemma environment_weight:
  "environment (adjustWeights (Some p)) =
     (if truthy_flag (prioritizeWildlife p)
      then (if truthy_flag (weatherSensitive p)
        then (if truthy_flag (prioritizePathQuality p)
          then 1351079888211149 / 2 ^ 52
          else 3602879701896397 / 2 ^ 53)
        else (if truthy_flag (prioritizePathQuality p)
          then 900719925474099 / 2 ^ 53
          else 7205759403792793 / 2 ^ 55))
      else (if truthy_flag (weatherSensitive p)
        then (if truthy_flag (prioritizePathQuality p)
          then 3602879701896397 / 2 ^ 53
          else 1 / 2 ^ 1)
        else (if truthy_flag (prioritizePathQuality p)
          then 7205759403792793 / 2 ^ 55
          else 5404319552844595 / 2 ^ 54)))"
  by (cases "truthy_flag (prioritizeWildlife p)"; cases "truthy_flag (weatherSensitive p)"; cases "truthy_flag (prioritizePathQuality p)";
      simp add: adjustWeights_Some step_fields fl_eval)

lemma wildlife_weight:
  "wildlife (adjustWeights (Some p)) =
     (if truthy_flag (prioritizeWildlife p)
      then (if truthy_flag (weatherSensitive p)
        then (if truthy_flag (facilityDependent p)
          then 4503599627370497 / 2 ^ 54
          else 1351079888211149 / 2 ^ 52)
        else (if truthy_flag (facilityDependent p)
          then 6305039478318695 / 2 ^ 54
          else 3602879701896397 / 2 ^ 53))
      else (if truthy_flag (weatherSensitive p)
        then (if truthy_flag (facilityDependent p)
          then 7205759403792793 / 2 ^ 56
          else 5404319552844595 / 2 ^ 55)
        else (if truthy_flag (facilityDependent p)
          then 3602879701896397 / 2 ^ 54
          else 1 / 2 ^ 2)))"
  by (cases "truthy_flag (prioritizeWildlife p)"; cases "truthy_flag (weatherSensitive p)"; cases "truthy_flag (facilityDependent p)";
      simp add: adjustWeights_Some step_fields fl_eval)

lemma facility_weight:
  "facility (adjustWeights (Some p)) =
     (if truthy_flag (prioritizeWildlife p)
      then (if truthy_flag (facilityDependent p)
        then 1351079888211149 / 2 ^ 52
        else 1351079888211149 / 2 ^ 53)
      else (if truthy_flag (facilityDependent p)
        then 3152519739159347 / 2 ^ 53
        else 3602879701896397 / 2 ^ 54))"
  by (cases "truthy_flag (prioritizeWildlife p)"; cases "truthy_flag (facilityDependent p)";
      simp add: adjustWeights_Some step_fields fl_eval)

lemma path_weight:
  "path (adjustWeights (Some p)) =
     (if truthy_flag (weatherSensitive p)
      then (if truthy_flag (facilityDependent p)
        then (if truthy_flag (prioritizePathQuality p)
          then 900719925474099 / 2 ^ 53
          else - (1801439850948199 / 2 ^ 55))
        else (if truthy_flag (prioritizePathQuality p)
          then 7205759403792793 / 2 ^ 55
          else 900719925474099 / 2 ^ 54))
      else (if truthy_flag (facilityDependent p)
        then (if truthy_flag (prioritizePathQuality p)
          then 7205759403792793 / 2 ^ 55
          else 900719925474099 / 2 ^ 54)
        else (if truthy_flag (prioritizePathQuality p)
          then 5404319552844595 / 2 ^ 54
          else 5404319552844595 / 2 ^ 55)))"
  by (cases "truthy_flag (weatherSensitive p)"; cases "truthy_flag (facilityDependent p)"; cases "truthy_flag (prioritizePathQuality p)";
      simp add: adjustWeights_Some step_fields fl_eval)

lemma personal_weight:
  "personal (adjustWeights (Some p)) =
     (if truthy_flag (prioritizePathQuality p)
      then 3602879701896397 / 2 ^ 56
      else 3602879701896397 / 2 ^ 55)"
  by (cases "truthy_flag (prioritizePathQuality p)";
      simp add: adjustWeights_Some step_fields fl_eval)

lemmas adjustWeights_fields =
  environment_weight wildlife_weight facility_weight path_weight personal_weight

lemma adjustWeights_null: "adjustWeights None = defaultWeights"
  by (simp add: adjustWeights_def)

text \<open>C3, as stated, fails: with \<^verbatim>\<open>weatherSensitive\<close> and
  \<^verbatim>\<open>facilityDependent\<close> set and \<^verbatim>\<open>prioritizePathQuality\<close> not set,
  the path weight is \<open>0.15 - 0.1 - 0.1\<close>, which is negative and so outside \<open>[0,1]\<close>.\<close>

theorem C3_path_weight_negative_counterexample:
  "\<not> (0 \<le> path (adjustWeights (Some (flags_only False True True False)))
      \<and> path (adjustWeights (Some (flags_only False True True False))) \<le> 1)"
  by (simp add: adjustWeights_fields flags_only_def truthy_flag_def)

text \<open>C3, amended: for every preferences value (also \<^verbatim>\<open>null\<close>), the
  environment, wildlife, facility and personal weights lie in \<open>[0,1]\<close>; the path weight
  is at most 1 and not below \<open>-0.05000000000000002\<close>, the double that
  \<^verbatim>\<open>0.15 - 0.1 - 0.1\<close> evaluates to, and it is negative exactly when
  \<^verbatim>\<open>weatherSensitive\<close> and \<^verbatim>\<open>facilityDependent\<close> are set and
  \<^verbatim>\<open>prioritizePathQuality\<close> is not.\<close>

theorem C3_weights_range:
  "0 \<le> environment (adjustWeights prefs) \<and> environment (adjustWeights prefs) \<le> 1
   \<and> 0 \<le> wildlife (adjustWeights prefs) \<and> wildlife (adjustWeights prefs) \<le> 1
   \<and> 0 \<le> facility (adjustWeights prefs) \<and> facility (adjustWeights prefs) \<le> 1
   \<and> 0 \<le> personal (adjustWeights prefs) \<and> personal (adjustWeights prefs) \<le> 1
   \<and> - 0.05000000000000002 \<le> path (adjustWeights prefs) \<and> path (adjustWeights prefs) \<le> 1
   \<and> (path (adjustWeights prefs) < 0 \<longleftrightarrow>
        (\<exists>p. prefs = Some p \<and> truthy_flag (weatherSensitive p)
             \<and> truthy_flag (facilityDependent p)
             \<and> \<not> truthy_flag (prioritizePathQuality p)))"
proof (cases prefs)
  case None
  then show ?thesis
    by (simp add: adjustWeights_null default_values)
next
  case (Some p)
  then show ?thesis
    by (simp add: adjustWeights_fields)
qed

text \<open>At two profiles: the path weight is negative for \<^verbatim>\<open>weatherSensitive\<close> with
  \<^verbatim>\<open>facilityDependent\<close>, where it is the double \<open>-0.05000000000000002\<close>, just
  below \<open>-0.05\<close>; and it is not negative once \<^verbatim>\<open>prioritizePathQuality\<close> is
  set as well.\<close>

theorem C3_weights_range_witness:
  "path (adjustWeights (Some (flags_only False True True False))) < 0
   \<and> 0 \<le> path (adjustWeights (Some (flags_only True True False True)))
   \<and> - 0.05000000000000002 \<le> path (adjustWeights (Some (flags_only False True True False)))
   \<and> path (adjustWeights (Some (flags_only False True True False))) < - 0.05"
proof -
  have "path (adjustWeights (Some (flags_only False True True False))) < - 0.05"
    by (simp add: adjustWeights_fields flags_only_def truthy_flag_def)
  with C3_weights_range [of "Some (flags_only False True True False)"]
    C3_weights_range [of "Some (flags_only True True False True)"]
  show ?thesis
    by (simp add: flags_only_def truthy_flag_def)
qed

text \<open>C9, as stated, fails: with \<^verbatim>\<open>facilityDependent\<close> alone, the five adjusted
  weights are 0.3, 0.2, 0.35, 0.04999999999999999 and 0.1. Added as the code would add
  them they give 0.9999999999999999, and as real numbers they add up to
  \<open>1 - 2^-55\<close>; the default weights add up to 1. The deltas +0.15, -0.05 and -0.10
  cancel as decimal numbers, but each addition rounds.\<close>

theorem C9_facility_flag_sum_counterexample:
  "weight_sum (adjustWeights (Some (flags_only False False True False))) = 1 - 1 / 2 ^ 53
   \<and> exact_sum (adjustWeights (Some (flags_only False False True False))) = 1 - 1 / 2 ^ 55
   \<and> weight_sum defaultWeights = 1"
  by (simp add: weight_sum_def exact_sum_def adjustWeights_fields default_fields flags_only_def
      truthy_flag_def fl_eval)

text \<open>C9, amended: the sum of the five adjusted weights is 1 up to one rounding step. Added
  from left to right in doubles it is 0.9999999999999999, 1 or 1.0000000000000002, and it is
  1 exactly when \<^verbatim>\<open>prioritizePathQuality\<close> is set or neither
  \<^verbatim>\<open>weatherSensitive\<close> nor \<^verbatim>\<open>facilityDependent\<close> is (in particular for
  \<^verbatim>\<open>null\<close>); as real numbers the five weights add up to 1 within \<open>9 / 2^56\<close>,
  about \<open>1.25e-16\<close>. The default weights add up to 1.\<close>

theorem C9_weight_sum_near_one:
  "weight_sum (adjustWeights prefs) \<in> {1 - 1 / 2 ^ 53, 1, 1 + 1 / 2 ^ 52}
   \<and> \<bar>exact_sum (adjustWeights prefs) - 1\<bar> \<le> 9 / 2 ^ 56
   \<and> weight_sum defaultWeights = 1
   \<and> (weight_sum (adjustWeights prefs) = 1 \<longleftrightarrow>
        \<not> (\<exists>p. prefs = Some p \<and> \<not> truthy_flag (prioritizePathQuality p)
               \<and> (truthy_flag (weatherSensitive p) \<or> truthy_flag (facilityDependent p))))"
proof -
  have d: "weight_sum defaultWeights = 1" "exact_sum defaultWeights = 1"
    by (simp_all add: weight_sum_def exact_sum_def default_fields fl_eval)
  show ?thesis
  proof (cases prefs)
    case None
    with d show ?thesis by (simp add: adjustWeights_null)
  next
    case (Some p)
    have "weight_sum (adjustWeights (Some p)) \<in> {1 - 1 / 2 ^ 53, 1, 1 + 1 / 2 ^ 52}
      \<and> \<bar>exact_sum (adjustWeights (Some p)) - 1\<bar> \<le> 9 / 2 ^ 56
      \<and> (weight_sum (adjustWeights (Some p)) = 1 \<longleftrightarrow>
           \<not> (\<not> truthy_flag (prioritizePathQuality p)
               \<and> (truthy_flag (weatherSensitive p) \<or> truthy_flag (facilityDependent p))))"
      by (cases "truthy_flag (prioritizeWildlife p)"; cases "truthy_flag (weatherSensitive p)";
          cases "truthy_flag (facilityDependent p)"; cases "truthy_flag (prioritizePathQuality p)";
          simp add: weight_sum_def exact_sum_def adjustWeights_fields fl_eval)
    with Some d show ?thesis by auto
  qed
qed

section \<open>Great-circle distance: the two implementations\<close>

lemma angle_diff: "(b - a) * pi / 180 = b * pi / 180 - a * pi / (180::real)"
  by (simp add: left_diff_distrib diff_divide_distrib)

text \<open>Over the real numbers the quantity under the two square roots lies in \<open>[0,1]\<close>
  for all angles, so neither \<^verbatim>\<open>Math.sqrt(A)\<close> nor \<^verbatim>\<open>Math.sqrt(1 - A)\<close>
  is taken of a negative number.\<close>

lemma haversine_argument_range:
  fixes lat1 lat2 dlng :: real
  defines "A \<equiv> (sin ((lat2 - lat1) / 2))\<^sup>2 + cos lat1 * cos lat2 * (sin (dlng / 2))\<^sup>2"
  shows "0 \<le> A \<and> A \<le> 1"
proof -
  define s where "s = (sin (dlng / 2))\<^sup>2"
  define c where "c = cos (lat1 - lat2)"
  define d where "d = cos (lat1 + lat2)"
  have s: "0 \<le> s" "s \<le> 1" unfolding s_def by (simp_all add: abs_square_le_1)
  have c: "- 1 \<le> c" "c \<le> 1" unfolding c_def by simp_all
  have d: "- 1 \<le> d" "d \<le> 1" unfolding d_def by simp_all
  have h: "(sin ((lat2 - lat1) / 2))\<^sup>2 = (1 - c) / 2"
  proof -
    have "cos (2 * ((lat2 - lat1) / 2)) = 1 - 2 * (sin ((lat2 - lat1) / 2))\<^sup>2"
      by (rule cos_double_sin)
    moreover have "cos (2 * ((lat2 - lat1) / 2)) = c"
      unfolding c_def by (metis cos_minus minus_diff_eq mult.commute nonzero_mult_div_cancel_left
          times_divide_eq_right zero_neq_numeral)
    ultimately show ?thesis by simp
  qed
  have p: "cos lat1 * cos lat2 = (c + d) / 2"
    unfolding c_def d_def by (simp add: cos_times_cos)
  have A: "A = ((1 - c) * (1 - s) + s * (1 + d)) / 2"
    unfolding A_def h p s_def [symmetric] by (simp add: field_simps)
  have B: "1 - A = ((1 + c) * (1 - s) + s * (1 - d)) / 2"
    unfolding A by (simp add: field_simps)
  have "0 \<le> (1 - c) * (1 - s)" "0 \<le> s * (1 + d)"
    using s c d by simp_all
  then have "0 \<le> (1 - c) * (1 - s) + s * (1 + d)" by simp
  then have lo: "0 \<le> A" unfolding A by simp
  have "0 \<le> (1 + c) * (1 - s)" "0 \<le> s * (1 - d)"
    using s c d by simp_all
  then have "0 \<le> (1 + c) * (1 - s) + s * (1 - d)" by simp
  then have "0 \<le> 1 - A" unfolding B by simp
  with lo show ?thesis by simp
qed

text \<open>Over the real numbers the two formulas denote the same function: they differ in
  where the factor \<open>\<pi>/180\<close> is applied and in writing a square as a product. This is
  a property of the formulas. The doubles that the two functions return carry the
  rounding errors of two different sequences of operations and are not determined by
  the formulas alone.\<close>

lemma distance_formulas_agree:
  "calculateDistance \<lparr>lat = la1, lng = lo1\<rparr> \<lparr>lat = la2, lng = lo2\<rparr>
     = haversine (la1, lo1) (la2, lo2)"
  unfolding calculateDistance_def haversine_def Let_def
  by (simp add: angle_diff power2_eq_square mult.assoc)

section \<open>Trail graph construction\<close>

lemma digit_char_inj:
  assumes "a < 10" "b < 10" "digit_char a = digit_char b"
  shows "a = b"
proof -
  have A: "a \<in> {0, 1, 2, 3, 4, 5, 6, 7, 8, 9}" using assms(1) by auto
  have B: "b \<in> {0, 1, 2, 3, 4, 5, 6, 7, 8, 9}" using assms(2) by auto
  from A B assms(3) show ?thesis
    by (auto simp: digit_char_def)
qed

lemma string_of_nat_nonempty: "string_of_nat n \<noteq> []"
  by (subst string_of_nat.simps) simp

lemma string_of_nat_inj: "string_of_nat n = string_of_nat m \<Longrightarrow> n = m"
proof (induction n arbitrary: m rule: string_of_nat.induct)
  case (1 n)
  show ?case
  proof (cases "n < 10")
    case small_n: True
    show ?thesis
    proof (cases "m < 10")
      case True
      with small_n "1.prems" show ?thesis
        by (simp add: string_of_nat.simps [of n] string_of_nat.simps [of m] digit_char_inj)
    next
      case False
      with small_n "1.prems" string_of_nat_nonempty [of "m div 10"] show ?thesis
        by (simp add: string_of_nat.simps [of n] string_of_nat.simps [of m]
            Cons_eq_append_conv)
    qed
  next
    case big_n: False
    show ?thesis
    proof (cases "m < 10")
      case True
      with big_n "1.prems" string_of_nat_nonempty [of "n div 10"] show ?thesis
        by (simp add: string_of_nat.simps [of n] string_of_nat.simps [of m]
            append_eq_Cons_conv)
    next
      case False
      with big_n "1.prems"
      have eq: "string_of_nat (n div 10) = string_of_nat (m div 10)"
        and dg: "digit_char (n mod 10) = digit_char (m mod 10)"
        by (simp_all add: string_of_nat.simps [of n] string_of_nat.simps [of m])
      from "1.IH" [OF big_n eq] have d: "n div 10 = m div 10" .
      from dg have r: "n mod 10 = m mod 10"
        by (intro digit_char_inj) simp_all
      from d r show ?thesis
        by (metis div_mult_mod_eq)
    qed
  qed
qed

lemma node_name_inj [simp]: "node_name i = node_name j \<longleftrightarrow> i = j"
  by (auto simp: node_name_def dest: string_of_nat_inj)

lemma map_of_map_set: "map_of (map_set k v m) = (map_of m)(k \<mapsto> v)"
  by (induction m) (auto simp: fun_eq_iff)

lemma map_set_fresh: "k \<notin> fst ` set m \<Longrightarrow> map_set k v m = m @ [(k, v)]"
  by (induction m) auto

lemma map_of_named_list:
  "i \<in> set ks \<Longrightarrow> map_of (map (\<lambda>k. (node_name k, f k)) ks) (node_name i) = Some (f i)"
  by (induction ks) auto

lemma map_of_named:
  "i < n \<Longrightarrow> map_of (map (\<lambda>k. (node_name k, f k)) [0..<n]) (node_name i) = Some (f i)"
  by (rule map_of_named_list) simp

lemma upt_head: "[s..<s + Suc n] = s # [Suc s..<Suc s + n]"
  by (subst upt_rec) simp

text \<open>Adding the nodes of a line keeps the invariants.\<close>

lemma add_node_wf:
  assumes "wf_builder b" "add_node c (b, ns) = (b', ns')"
  shows "wf_builder b' \<and> nodeId b' = Suc (nodeId b) \<and> ns' = ns @ [nodeId b]
         \<and> edge_list b' = edge_list b \<and> (\<exists>nd. heap b' = heap b @ [nd])"
proof -
  have fresh: "node_name (nodeId b) \<notin> fst ` set (node_map b)"
    using assms(1) by (auto simp: wf_builder_def)
  show ?thesis
    using assms map_set_fresh [OF fresh]
    by (auto simp: add_node_def wf_builder_def Let_def nth_append less_Suc_eq)
qed

lemma edge_at_append: "Suc i < length h \<Longrightarrow> edge_at (h @ h') i e = edge_at h i e"
  by (simp add: edge_at_def nth_append)

lemma add_node_edges_inv:
  assumes "wf_builder b" "edges_inv b m" "add_node c (b, ns) = (b', ns')"
  shows "edges_inv b' m"
proof -
  from add_node_wf [OF assms(1,3)] obtain nd where
    h: "heap b' = heap b @ [nd]" and e: "edge_list b' = edge_list b"
    and n: "nodeId b' = Suc (nodeId b)" by blast
  have len: "length (heap b) = nodeId b" using assms(1) by (simp add: wf_builder_def)
  show ?thesis
    unfolding edges_inv_def
  proof
    fix x assume "x \<in> set (edge_list b')"
    with e assms(2) obtain i where "i < m" "Suc i < nodeId b" "edge_at (heap b) i x"
      by (auto simp: edges_inv_def)
    then show "\<exists>i. i < m \<and> Suc i < nodeId b' \<and> edge_at (heap b') i x"
      using h n len by (auto simp: edge_at_append intro!: exI [of _ i])
  qed
qed

lemma fold_add_node:
  assumes "wf_builder b" "edges_inv b m"
  shows "\<exists>b'. fold add_node cs (b, ns) = (b', ns @ [nodeId b..<nodeId b + length cs])
          \<and> wf_builder b' \<and> edges_inv b' m \<and> nodeId b' = nodeId b + length cs
          \<and> edge_list b' = edge_list b"
  using assms
proof (induction cs arbitrary: b ns)
  case Nil
  then show ?case by simp
next
  case (Cons c cs)
  obtain b1 ns1 where st: "add_node c (b, ns) = (b1, ns1)" by (cases "add_node c (b, ns)")
  from add_node_wf [OF Cons.prems(1) st] add_node_edges_inv [OF Cons.prems st]
  have w: "wf_builder b1" and e: "edges_inv b1 m" and n: "nodeId b1 = Suc (nodeId b)"
    and l: "ns1 = ns @ [nodeId b]" and el: "edge_list b1 = edge_list b" by auto
  from Cons.IH [OF w e, of ns1] obtain b' where
    "fold add_node cs (b1, ns1) = (b', ns1 @ [nodeId b1..<nodeId b1 + length cs])"
    "wf_builder b'" "edges_inv b' m" "nodeId b' = nodeId b1 + length cs"
    "edge_list b' = edge_list b1" by blast
  moreover have "[nodeId b..<nodeId b + length (c # cs)] =
      nodeId b # [nodeId b1..<nodeId b1 + length cs]"
    using upt_head [of "nodeId b" "length cs"] n by simp
  ultimately show ?case
    using st n l el by simp
qed

text \<open>Linking two consecutive nodes keeps the invariants.\<close>

lemma link_basic:
  "nodeId (link a b st) = nodeId st" "node_map (link a b st) = node_map st"
  "length (heap (link a b st)) = length (heap st)"
  "length (edge_list (link a b st)) = Suc (length (edge_list st))"
  by (simp_all add: link_def Let_def)

lemma link_node_id:
  "k < length (heap st) \<Longrightarrow> node_id (heap (link a b st) ! k) = node_id (heap st ! k)"
  by (cases "k = b"; cases "k = a") (simp_all add: link_def Let_def)

lemma link_wf: "wf_builder st \<Longrightarrow> wf_builder (link a b st)"
  by (simp add: wf_builder_def link_basic link_node_id)

lemma link_adj:
  assumes "a < length (heap st)" "Suc a < length (heap st)" "k < length (heap st)"
  shows "map_of (adj (heap (link a (Suc a) st) ! k)) =
           (if k = a then (map_of (adj (heap st ! a)))
                 (node_id (heap st ! Suc a) \<mapsto> haversine (latlng (heap st ! a)) (latlng (heap st ! Suc a)))
            else if k = Suc a then (map_of (adj (heap st ! Suc a)))
                 (node_id (heap st ! a) \<mapsto> haversine (latlng (heap st ! a)) (latlng (heap st ! Suc a)))
            else map_of (adj (heap st ! k)))"
  using assms by (simp add: link_def Let_def nth_list_update map_of_map_set)

lemma link_edges_inv:
  assumes w: "wf_builder st" and e: "edges_inv st a" and a: "Suc a < nodeId st"
  shows "edges_inv (link a (Suc a) st) (Suc a)"
proof -
  have len: "length (heap st) = nodeId st"
    and ids: "\<And>k. k < nodeId st \<Longrightarrow> node_id (heap st ! k) = node_name k"
    using w by (simp_all add: wf_builder_def)
  let ?st = "link a (Suc a) st"
  let ?d = "haversine (latlng (heap st ! a)) (latlng (heap st ! Suc a))"
  have el: "edge_list ?st = edge_list st @
      [\<lparr>e_from = node_name a, e_to = node_name (Suc a), weight = ?d\<rparr>]"
    using a ids by (simp add: link_def Let_def)
  show ?thesis
    unfolding edges_inv_def
  proof
    fix x assume "x \<in> set (edge_list ?st)"
    then consider (old) "x \<in> set (edge_list st)"
      | (new) "x = \<lparr>e_from = node_name a, e_to = node_name (Suc a), weight = ?d\<rparr>"
      using el by auto
    then show "\<exists>i. i < Suc a \<and> Suc i < nodeId ?st \<and> edge_at (heap ?st) i x"
    proof cases
      case old
      with e obtain i where i: "i < a" "Suc i < nodeId st" "edge_at (heap st) i x"
        by (auto simp: edges_inv_def)
      have "edge_at (heap ?st) i x"
        using i a len ids by (auto simp: edge_at_def link_adj)
      with i show ?thesis by (auto simp: link_basic intro!: exI [of _ i])
    next
      case new
      have "edge_at (heap ?st) a x"
        using new a len ids by (simp add: edge_at_def link_adj)
      with a show ?thesis by (auto simp: link_basic intro!: exI [of _ a])
    qed
  qed
qed

lemma edges_inv_mono:
  assumes "edges_inv b m" "m \<le> m'"
  shows "edges_inv b m'"
  unfolding edges_inv_def
proof
  fix x assume "x \<in> set (edge_list b)"
  with assms(1) obtain i where "i < m" "Suc i < nodeId b" "edge_at (heap b) i x"
    by (auto simp: edges_inv_def)
  with assms(2) show "\<exists>i. i < m' \<and> Suc i < nodeId b \<and> edge_at (heap b) i x"
    by (auto intro!: exI [of _ i])
qed

lemma connect_range:
  assumes "wf_builder st" "edges_inv st s" "s + n \<le> nodeId st"
  shows "wf_builder (connect [s..<s + n] st) \<and> edges_inv (connect [s..<s + n] st) (s + n)
         \<and> nodeId (connect [s..<s + n] st) = nodeId st
         \<and> length (edge_list (connect [s..<s + n] st)) = length (edge_list st) + (n - 1)"
  using assms
proof (induction n arbitrary: s st)
  case 0
  then show ?case by simp
next
  case (Suc n)
  show ?case
  proof (cases n)
    case 0
    with Suc.prems edges_inv_mono [of st s "Suc s"] show ?thesis
      by simp
  next
    case (Suc k)
    let ?st = "link s (Suc s) st"
    have "connect [s..<s + Suc (Suc k)] st = connect [Suc s..<Suc s + Suc k] ?st"
      by (simp only: upt_head connect.simps)
    then have step: "connect [s..<s + Suc n] st = connect [Suc s..<Suc s + n] ?st"
      using Suc by simp
    have a: "Suc s < nodeId st" using Suc.prems(3) Suc by simp
    have w: "wf_builder ?st" using Suc.prems(1) by (rule link_wf)
    have e: "edges_inv ?st (Suc s)" using Suc.prems(1,2) a by (rule link_edges_inv)
    have b: "Suc s + n \<le> nodeId ?st" using Suc.prems(3) by (simp add: link_basic)
    from Suc.IH [OF w e b] show ?thesis
      using step Suc by (simp add: link_basic)
  qed
qed

lemma add_feature_inv:
  assumes "wf_builder b" "edges_inv b (nodeId b)" "geometry f \<noteq> None"
  shows "\<exists>b'. add_feature f b = Inr b' \<and> wf_builder b' \<and> edges_inv b' (nodeId b')
          \<and> nodeId b' = nodeId b + line_coords f
          \<and> length (edge_list b') = length (edge_list b) + (line_coords f - 1)"
proof -
  from assms(3) obtain g where g: "geometry f = Some g" by auto
  show ?thesis
  proof (cases "geom_type g = ''LineString''")
    case False
    with g assms show ?thesis
      by (simp add: add_feature_def line_coords_def)
  next
    case True
    let ?n = "length (coordinates g)"
    from fold_add_node [OF assms(1,2), of "coordinates g" "[]"] obtain b1 where
      f: "fold add_node (coordinates g) (b, []) = (b1, [nodeId b..<nodeId b + ?n])"
      and w: "wf_builder b1" and e: "edges_inv b1 (nodeId b)"
      and n: "nodeId b1 = nodeId b + ?n" and el: "edge_list b1 = edge_list b"
      by auto
    have "nodeId b + ?n \<le> nodeId b1" using n by simp
    from connect_range [OF w e this]
    show ?thesis
      using g True f n el by (simp add: add_feature_def line_coords_def)
  qed
qed

lemma add_features_inv:
  assumes "wf_builder b" "edges_inv b (nodeId b)" "\<forall>f\<in>set fs. geometry f \<noteq> None"
  shows "\<exists>b'. add_features fs b = Inr b' \<and> wf_builder b' \<and> edges_inv b' (nodeId b')
          \<and> nodeId b' = nodeId b + (\<Sum>f\<leftarrow>fs. line_coords f)
          \<and> length (edge_list b') = length (edge_list b) + (\<Sum>f\<leftarrow>fs. line_coords f - 1)"
  using assms
proof (induction fs arbitrary: b)
  case Nil
  then show ?case by simp
next
  case (Cons f fs)
  from Cons.prems have "geometry f \<noteq> None" by simp
  from add_feature_inv [OF Cons.prems(1,2) this] obtain b1 where
    s: "add_feature f b = Inr b1" and w: "wf_builder b1" and e: "edges_inv b1 (nodeId b1)"
    and n: "nodeId b1 = nodeId b + line_coords f"
    and l: "length (edge_list b1) = length (edge_list b) + (line_coords f - 1)" by blast
  from Cons.prems have "\<forall>f\<in>set fs. geometry f \<noteq> None" by simp
  from Cons.IH [OF w e this] show ?case
    using s n l by auto
qed

lemma empty_builder_inv: "wf_builder empty_builder" "edges_inv empty_builder (nodeId empty_builder)"
  by (simp_all add: wf_builder_def edges_inv_def empty_builder_def)

lemma buildTrailGraph_structure:
  assumes "\<forall>f\<in>set fs. geometry f \<noteq> None"
  shows "\<exists>G. buildTrailGraph fs = Inr G
          \<and> map fst (nodes G) = map node_name [0..<(\<Sum>f\<leftarrow>fs. line_coords f)]
          \<and> length (edges G) = (\<Sum>f\<leftarrow>fs. line_coords f - 1)
          \<and> (\<forall>e\<in>set (edges G). \<exists>A B.
                map_of (nodes G) (e_from e) = Some A \<and> map_of (nodes G) (e_to e) = Some B
                \<and> map_of (adj A) (e_to e) = Some (weight e)
                \<and> map_of (adj B) (e_from e) = Some (weight e))"
proof -
  from add_features_inv [OF empty_builder_inv assms] obtain b where
    r: "add_features fs empty_builder = Inr b" and w: "wf_builder b"
    and e: "edges_inv b (nodeId b)"
    and n: "nodeId b = (\<Sum>f\<leftarrow>fs. line_coords f)"
    and l: "length (edge_list b) = (\<Sum>f\<leftarrow>fs. line_coords f - 1)"
    by (auto simp: empty_builder_def)
  let ?G = "\<lparr>nodes = map (\<lambda>(k, a). (k, heap b ! a)) (node_map b), edges = edge_list b\<rparr>"
  have G: "buildTrailGraph fs = Inr ?G" using r by (simp add: buildTrailGraph_def)
  have nm: "nodes ?G = map (\<lambda>k. (node_name k, heap b ! k)) [0..<nodeId b]"
    using w by (simp add: wf_builder_def)
  have look: "\<And>i. i < nodeId b \<Longrightarrow> map_of (nodes ?G) (node_name i) = Some (heap b ! i)"
    unfolding nm by (rule map_of_named)
  have keys: "map fst (nodes ?G) = map node_name [0..<(\<Sum>f\<leftarrow>fs. line_coords f)]"
    unfolding nm n [symmetric] by (simp add: comp_def)
  have mirror: "\<forall>e\<in>set (edges ?G). \<exists>A B.
                map_of (nodes ?G) (e_from e) = Some A \<and> map_of (nodes ?G) (e_to e) = Some B
                \<and> map_of (adj A) (e_to e) = Some (weight e)
                \<and> map_of (adj B) (e_from e) = Some (weight e)"
  proof
    fix x assume "x \<in> set (edges ?G)"
    with e obtain i where i: "Suc i < nodeId b" "edge_at (heap b) i x"
      by (auto simp: edges_inv_def)
    then have "map_of (nodes ?G) (e_from x) = Some (heap b ! i)"
      "map_of (nodes ?G) (e_to x) = Some (heap b ! Suc i)"
      using look [of i] look [of "Suc i"] by (simp_all add: edge_at_def)
    with i(2) show "\<exists>A B.
                map_of (nodes ?G) (e_from x) = Some A \<and> map_of (nodes ?G) (e_to x) = Some B
                \<and> map_of (adj A) (e_to x) = Some (weight x)
                \<and> map_of (adj B) (e_from x) = Some (weight x)"
      by (simp add: edge_at_def)
  qed
  from G keys l mirror show ?thesis by (intro exI [of _ ?G]) simp
qed

text \<open>C4, as stated, fails: a line with a single coordinate raises nothing; the builder
  returns a graph with one node and no edge.\<close>

theorem C4_short_line_builds_counterexample:
  "buildTrailGraph [line [(0, 51)]] =
     Inr \<lparr>nodes = [(''node_0'', \<lparr>node_id = ''node_0'', latlng = (51, 0), adj = []\<rparr>)],
          edges = []\<rparr>"
  by (simp add: buildTrailGraph_def line_def add_feature_def add_node_def empty_builder_def
      node_name_def string_of_nat.simps digit_char_def Let_def)

text \<open>C4, amended: the builder never raises for an input whose features all have a
  geometry, whatever the number of coordinates of its lines: it returns a graph with one
  node per coordinate of a line and one edge per consecutive pair, so a line with fewer
  than 2 coordinates contributes its coordinates as nodes and no edge.\<close>

theorem C4_builder_total:
  assumes "\<forall>f\<in>set fs. geometry f \<noteq> None"
  shows "\<exists>G. buildTrailGraph fs = Inr G
          \<and> length (nodes G) = (\<Sum>f\<leftarrow>fs. line_coords f)
          \<and> length (edges G) = (\<Sum>f\<leftarrow>fs. line_coords f - 1)"
proof -
  from buildTrailGraph_structure [OF assms] obtain G where
    "buildTrailGraph fs = Inr G"
    "map fst (nodes G) = map node_name [0..<(\<Sum>f\<leftarrow>fs. line_coords f)]"
    "length (edges G) = (\<Sum>f\<leftarrow>fs. line_coords f - 1)" by blast
  moreover from this(2) have "length (nodes G) = (\<Sum>f\<leftarrow>fs. line_coords f)"
    by (metis length_map length_upt diff_zero)
  ultimately show ?thesis by blast
qed

text \<open>At an input with a one-coordinate line and an empty line: one node, no edge.\<close>

theorem C4_builder_total_witness:
  "\<exists>G. buildTrailGraph [line [(0, 51)], line []] = Inr G
       \<and> length (nodes G) = 1 \<and> length (edges G) = 0"
  using C4_builder_total [of "[line [(0, 51)], line []]"]
  by (simp add: line_def line_coords_def)

lemma line_coords_line [simp]: "line_coords (line cs) = length cs"
  by (simp add: line_def line_coords_def)

lemma geometry_line [simp]:
  "geometry (line cs) = Some \<lparr>geom_type = ''LineString'', coordinates = cs\<rparr>"
  by (simp add: line_def)

text \<open>C6: for lines with coordinate counts \<open>n\<^sub>1, ..., n\<^sub>k\<close>, each at least 2, the
  builder returns a graph with exactly \<open>\<Sum> n\<^sub>i\<close> nodes (under distinct ids) and
  \<open>\<Sum> (n\<^sub>i - 1)\<close> edges; both endpoints of every edge are keys of the node map, and
  each endpoint's adjacency map holds the other endpoint with the edge's weight.\<close>

theorem C6_graph_counts_and_symmetry:
  assumes "\<forall>cs\<in>set ls. 2 \<le> length cs"
  shows "\<exists>G. buildTrailGraph (map line ls) = Inr G
          \<and> length (nodes G) = (\<Sum>cs\<leftarrow>ls. length cs)
          \<and> distinct (map fst (nodes G))
          \<and> length (edges G) = (\<Sum>cs\<leftarrow>ls. length cs - 1)
          \<and> (\<forall>e\<in>set (edges G). \<exists>A B.
                map_of (nodes G) (e_from e) = Some A \<and> map_of (nodes G) (e_to e) = Some B
                \<and> map_of (adj A) (e_to e) = Some (weight e)
                \<and> map_of (adj B) (e_from e) = Some (weight e))"
proof -
  have "\<forall>f\<in>set (map line ls). geometry f \<noteq> None" by simp
  from buildTrailGraph_structure [OF this] obtain G where
    G: "buildTrailGraph (map line ls) = Inr G"
    and keys: "map fst (nodes G) = map node_name [0..<(\<Sum>f\<leftarrow>map line ls. line_coords f)]"
    and ne: "length (edges G) = (\<Sum>f\<leftarrow>map line ls. line_coords f - 1)"
    and mirror: "\<forall>e\<in>set (edges G). \<exists>A B.
                map_of (nodes G) (e_from e) = Some A \<and> map_of (nodes G) (e_to e) = Some B
                \<and> map_of (adj A) (e_to e) = Some (weight e)
                \<and> map_of (adj B) (e_from e) = Some (weight e)"
    by blast
  have s1: "(\<Sum>f\<leftarrow>map line ls. line_coords f) = (\<Sum>cs\<leftarrow>ls. length cs)"
    by (simp add: comp_def)
  have s2: "(\<Sum>f\<leftarrow>map line ls. line_coords f - 1) = (\<Sum>cs\<leftarrow>ls. length cs - 1)"
    by (simp add: comp_def)
  have "length (nodes G) = (\<Sum>cs\<leftarrow>ls. length cs)"
    using keys s1 by (metis length_map length_upt diff_zero)
  moreover have "distinct (map fst (nodes G))"
    unfolding keys by (simp add: distinct_map inj_on_def)
  ultimately show ?thesis
    using G ne s2 mirror by (intro exI [of _ G]) simp
qed

text \<open>At two lines with 3 and 2 coordinates: 5 nodes and 3 edges.\<close>

theorem C6_graph_counts_and_symmetry_witness:
  "\<exists>G. buildTrailGraph (map line [[(0, 51), (0, 52), (1, 52)], [(2, 50), (2, 51)]]) = Inr G
       \<and> length (nodes G) = 5 \<and> length (edges G) = 3"
  using C6_graph_counts_and_symmetry [of "[[(0, 51), (0, 52), (1, 52)], [(2, 50), (2, 51)]]"]
  by (auto simp: eval_nat_numeral)

section \<open>Shortest path\<close>

lemma init_search_dists:
  "fold (\<lambda>nodeId (distances, unvisited).
             (distances(nodeId \<mapsto> Infinity), set_add nodeId unvisited)) ks (d, u) = (d', u')
   \<Longrightarrow> \<forall>k. d k = None \<or> d k = Some Infinity \<Longrightarrow> \<forall>k. d' k = None \<or> d' k = Some Infinity"
  by (induction ks arbitrary: d u) (auto split: if_splits)

lemma scan_source:
  assumes "\<forall>k. k \<noteq> s \<longrightarrow> d k = None \<or> d k = Some Infinity" "d s = Some (Finite 0)"
    and "acc = (None, Infinity) \<or> acc = (Some s, Finite 0)"
  shows "fold (scan_step d) us acc = (if s \<in> set us then (Some s, Finite 0) else acc)"
  using assms(3)
proof (induction us arbitrary: acc)
  case Nil
  then show ?case by simp
next
  case (Cons u us)
  have step: "scan_step d u acc = (if u = s then (Some s, Finite 0) else acc)"
    using assms(1,2) Cons.prems
    by (cases "u = s") (auto simp: scan_step_def split: option.splits)
  show ?case
    using Cons.IH [of "scan_step d u acc"] Cons.prems step by auto
qed

lemma walk_back_single:
  "walk_back Map.empty (Some s) [] = Some (if s = [] then [] else [s])"
  by (simp add: walk_back.simps)

lemma dijkstra_loop_same:
  assumes "\<forall>k. k \<noteq> s \<longrightarrow> d k = None \<or> d k = Some Infinity" "d s = Some (Finite 0)"
  shows "dijkstra_loop g s (d, Map.empty, u) = Inr Map.empty"
proof -
  have "select_min d u = (if s \<in> set u then (Some s, Finite 0) else (None, Infinity))"
    unfolding select_min_def using assms by (intro scan_source) simp_all
  then show ?thesis
    by (subst dijkstra_loop.simps) simp
qed

text \<open>The two-node graph is what the builder returns for a line with two points.\<close>

lemma buildTrailGraph_two_points:
  "buildTrailGraph [line [(0, 51), (0, 52)]] = Inr two_node_graph"
  by (simp add: buildTrailGraph_def line_def add_feature_def add_node_def empty_builder_def
      node_name_def string_of_nat.simps digit_char_def Let_def link_def two_node_graph_def)

text \<open>C1, as stated, fails: on the two-node graph, the search from \<^verbatim>\<open>node_0\<close> to
  itself does not return the path \<^verbatim>\<open>[node_0]\<close>; it returns \<^verbatim>\<open>null\<close>,
  although \<^verbatim>\<open>node_0\<close> is a node of the graph.\<close>

theorem C1_trivial_path_counterexample:
  "map_of (nodes two_node_graph) ''node_0'' \<noteq> None
   \<and> dijkstra (Some two_node_graph) ''node_0'' ''node_0'' = Some (Inr None)
   \<and> dijkstra (Some two_node_graph) ''node_0'' ''node_0'' \<noteq> Some (Inr (Some [''node_0'']))"
  by (simp add: dijkstra_def init_search_def two_node_graph_def set_add_def
      dijkstra_loop.simps select_min_def scan_step_def walk_back.simps)

text \<open>C1, amended: for every graph and every node id \<open>s\<close> (present in the graph or
  not), \<^verbatim>\<open>dijkstra(s, s)\<close> returns \<^verbatim>\<open>null\<close>, the no-path result: the
  walk back from the target yields the single node \<open>s\<close>, and the final guard
  \<^verbatim>\<open>path.length > 1\<close> turns a path of length 1 into \<^verbatim>\<open>null\<close>.\<close>

theorem C1_same_node_returns_null:
  "dijkstra (Some g) s s = Some (Inr None)"
proof -
  obtain d0 u where i: "init_search g = (d0, u)" by (cases "init_search g")
  then have "\<forall>k. d0 k = None \<or> d0 k = Some Infinity"
    unfolding init_search_def by (rule init_search_dists) simp
  then have "dijkstra_loop g s (d0(s \<mapsto> Finite 0), Map.empty, u) = Inr Map.empty"
    by (intro dijkstra_loop_same) simp_all
  then show ?thesis
    using i by (simp add: dijkstra_def walk_back_single)
qed

text \<open>For comparison, the search between the two distinct nodes returns the path, when
  the edge has positive length.\<close>

lemma dijkstra_two_nodes:
  "0 < haversine (51, 0) (52, 0) \<Longrightarrow>
   dijkstra (Some two_node_graph) ''node_0'' ''node_1'' = Some (Inr (Some [''node_0'', ''node_1'']))"
  by (simp add: dijkstra_def init_search_def two_node_graph_def set_add_def dijkstra_loop.simps
     select_min_def scan_step_def relax_def walk_back.simps)

section \<open>Score ranges\<close>

































text \<open>Evaluation of the sub-scores on the sample data.\<close>

lemmas weather_defs =
  calculateWeatherScore_def rain_adjust_def heat_adjust_def comfort_adjust_def
  wind_adjust_def humidity_adjust_def empty_weather_def getCurrentWeather_def

lemmas wildlife_defs =
  calculateWildlifeScore_def getTimeBasedProbability_def wildlifePatterns_def
  getSeasonalProbability_def seasonalMultipliers_def spring_multipliers_def
  calculateWildlifeLocationScore_def

lemmas facility_defs =
  calculateFacilityScore_def calculateFacilityDistribution_def
  calculatePersonalFacilityScore_def calculateFacilityStatus_def

lemmas personal_defs =
  calculatePersonalPreference_def distance_pref_def difficulty_pref_def interest_pref_def
  duration_pref_def no_keys_def

lemmas js_defs = num_or_def str_or_def dflt_def truthy_num_def truthy_str_def truthy_flag_def





lemma empty_personal: "calculatePersonalPreference r empty_preferences = 0.5"
  by (simp add: personal_defs empty_preferences_def)

lemma empty_preferences_fields:
  "needs empty_preferences = None" "prioritizeWildlife empty_preferences = None"
  "weatherSensitive empty_preferences = None" "facilityDependent empty_preferences = None"
  "prioritizePathQuality empty_preferences = None"
  by (simp_all add: empty_preferences_def)


lemma empty_weights: "adjustWeights (Some empty_preferences) = defaultWeights"
  by (simp add: adjustWeights_def wildlife_step_def weather_step_def facility_step_def
      path_step_def empty_preferences_fields truthy_flag_def)







section \<open>Recommendation\<close>

lemma meetsBasicCriteria_iff: "meetsBasicCriteria r f \<longleftrightarrow> \<not> violates_filters f r"
  unfolding meetsBasicCriteria_def violates_filters_def
  by (cases "maxDistance f"; cases "minDistance f"; cases "maxDuration f";
      cases "filter_difficulty f"; cases "distance r"; cases "estimatedTime r")
     (auto simp: truthy_num_def truthy_str_def truthy_flag_def num_gt_def num_lt_def dflt_def)

lemma score_entry_ok:
  assumes "userLocation = None \<or> startPoint r \<noteq> None"
  shows "\<exists>sr. score_entry userLocation prof c h r = Inr sr \<and> route sr = r"
  using assms by (auto simp: score_entry_def Let_def split: option.splits)

lemma map_result_ok:
  assumes "\<forall>x\<in>set xs. \<exists>y. f x = Inr y \<and> g y = x"
  shows "\<exists>ys. map_result f xs = Inr ys \<and> map g ys = xs"
  using assms
proof (induction xs)
  case Nil
  then show ?case by simp
next
  case (Cons x xs)
  then obtain y ys where "f x = Inr y" "g y = x" "map_result f xs = Inr ys" "map g ys = xs"
    by auto
  then show ?case by simp
qed

lemma set_insert_by [simp]: "set (insert_by cmp x xs) = insert x (set xs)"
  by (induction xs) auto

lemma length_insert_by [simp]: "length (insert_by cmp x xs) = Suc (length xs)"
  by (induction xs) auto

lemma set_js_sort [simp]: "set (js_sort cmp xs) = set xs"
  unfolding js_sort_def by (induction xs) auto

lemma length_js_sort [simp]: "length (js_sort cmp xs) = length xs"
  unfolding js_sort_def by (induction xs) auto

lemma replace_second_find:
  "replace_second top2 srt i =
     (case find (\<lambda>r. \<not> areRoutesSimilar (route (top2 ! 0)) (route r)) (drop i srt) of
        Some c \<Rightarrow> top2[1 := c]
      | None \<Rightarrow> top2)"
proof (induction top2 srt i rule: replace_second.induct)
  case (1 top2 srt i)
  show ?case
  proof (cases "i < length srt")
    case False
    then show ?thesis by (simp add: replace_second.simps [of top2 srt i])
  next
    case True
    then have d: "drop i srt = srt ! i # drop (Suc i) srt"
      by (simp add: Cons_nth_drop_Suc)
    show ?thesis
    proof (cases "areRoutesSimilar (route (top2 ! 0)) (route (srt ! i))")
      case False
      with True d show ?thesis by (simp add: replace_second.simps [of top2 srt i])
    next
      case sim: True
      with True "1.IH" d show ?thesis by (simp add: replace_second.simps [of top2 srt i])
    qed
  qed
qed

lemma select_top2_pair:
  "select_top2 (a # b # rest) =
     (if areRoutesSimilar (route a) (route b)
      then [a, case find (\<lambda>r. \<not> areRoutesSimilar (route a) (route r)) rest of
                 Some c \<Rightarrow> c | None \<Rightarrow> b]
      else [a, b])"
  by (simp add: select_top2_def replace_second_find split: option.splits)

lemma select_top2_short: "select_top2 [] = []" "select_top2 [a] = [a]"
  by (simp_all add: select_top2_def)

lemma select_top2_props:
  "length (select_top2 srt) \<le> 2 \<and> set (select_top2 srt) \<subseteq> set srt"
proof (cases srt)
  case Nil
  then show ?thesis by (simp add: select_top2_short)
next
  case (Cons a tl)
  show ?thesis
  proof (cases tl)
    case Nil
    with Cons show ?thesis by (simp add: select_top2_short)
  next
    case (Cons b rest)
    with \<open>srt = a # tl\<close> show ?thesis
      by (auto simp: select_top2_pair split: option.splits dest: find_Some_iff [THEN iffD1]
          simp: in_set_conv_nth)
  qed
qed

lemma recommendRoutes_returns:
  assumes "userLocation = None \<or> (\<forall>r\<in>set (eligibleRoutes allRoutes f). startPoint r \<noteq> None)"
  shows "\<exists>ranked. sortedRoutes allRoutes f userLocation prof h m = Inr ranked
           \<and> set (map route ranked) = set (eligibleRoutes allRoutes f)
           \<and> length ranked = length (eligibleRoutes allRoutes f)
           \<and> recommendRoutes allRoutes f userLocation prof h m = Inr (select_top2 ranked)"
proof -
  let ?c = "\<lparr>weather = Some (dflt (filter_weather f) getCurrentWeather), time = Some h,
             season = Some (getCurrentSeason m)\<rparr>"
  have "\<forall>r\<in>set (eligibleRoutes allRoutes f).
          \<exists>sr. score_entry userLocation prof ?c h r = Inr sr \<and> route sr = r"
    using assms by (auto intro!: score_entry_ok)
  from map_result_ok [OF this] obtain scored where
    sc: "map_result (score_entry userLocation prof ?c h) (eligibleRoutes allRoutes f) = Inr scored"
    and rt: "map route scored = eligibleRoutes allRoutes f" by blast
  let ?ranked = "js_sort compareRoutes scored"
  have r: "sortedRoutes allRoutes f userLocation prof h m = Inr ?ranked"
    using sc by (simp add: sortedRoutes_def)
  have s: "set (map route ?ranked) = set (eligibleRoutes allRoutes f)"
    using rt by (metis set_js_sort set_map)
  have l: "length ?ranked = length (eligibleRoutes allRoutes f)"
    using rt by (metis length_js_sort length_map)
  have "recommendRoutes allRoutes f userLocation prof h m = Inr (select_top2 ?ranked)"
  proof (cases "eligibleRoutes allRoutes f = []")
    case True
    with l have "?ranked = []" by (metis length_0_conv)
    with True show ?thesis by (simp add: recommendRoutes_def select_top2_short)
  next
    case False
    with r show ?thesis by (simp add: recommendRoutes_def)
  qed
  with r s l show ?thesis by blast
qed

text \<open>Evaluation on the sample data.\<close>

lemma no_filters_meets [simp]: "meetsBasicCriteria r no_filters"
  by (simp add: meetsBasicCriteria_def no_filters_def truthy_num_def truthy_str_def
      truthy_flag_def)

lemma june_ctx:
  "\<lparr>weather = Some (dflt (filter_weather no_filters) getCurrentWeather), time = Some 12,
    season = Some (getCurrentSeason 6)\<rparr> = june_noon"
  "\<lparr>weather = Some (dflt (filter_weather zero_max) getCurrentWeather), time = Some 12,
    season = Some (getCurrentSeason 6)\<rparr> = june_noon"
  by (simp_all add: june_noon_def no_filters_def zero_max_def dflt_def getCurrentSeason_def)

lemma score_entry_plain:
  "score_entry None prof c h r = Inr (plain_entry prof c h r)"
  by (simp add: score_entry_def plain_entry_def Let_def)

lemma plain_entry_fields [simp]:
  "route (plain_entry prof c h r) = r" "distanceScore (plain_entry prof c h r) = 0.5"
  "score (plain_entry prof c h r) = total (calculateScore r prof c h)"
  by (simp_all add: plain_entry_def Let_def)

lemma bare_route_score:
  "total (calculateScore (empty_route\<lparr>distance := d, themes := t, startPoint := sp\<rparr>)
            empty_preferences june_noon 12) = 0.55"
proof -
  let ?r = "empty_route\<lparr>distance := d, themes := t, startPoint := sp\<rparr>"
  have w: "calculateWeatherScore ?r getCurrentWeather = 0.8"
    by (simp add: empty_route_def weather_defs js_defs Let_def)
  have wl: "calculateWildlifeScore ?r 12 ''summer'' = 0.2475"
    by (simp add: empty_route_def wildlife_defs js_defs Let_def)
  have f: "calculateFacilityScore ?r [] = 0.225"
    by (simp add: empty_route_def facility_defs js_defs Let_def)
  have p: "calculatePathQuality ?r = 1"
    by (simp add: empty_route_def calculatePathQuality_def js_defs Let_def)
  have "sub_scores ?r empty_preferences june_noon 12 =
     \<lparr>bd_weather = 0.8, bd_wildlife = 0.2475, bd_facility = 0.225, bd_path = 1,
      bd_personal = 0.5\<rparr>"
    by (simp add: sub_scores_def june_noon_def w wl f p empty_personal
        empty_preferences_fields dflt_def str_or_def)
  then show ?thesis
    by (simp add: calculateScore_def Let_def empty_weights default_values weighted_sum_def
        round2_def js_round_def)
qed

lemma named_route_scores:
  "total (calculateScore park_loop empty_preferences june_noon 12) = 0.55"
  "total (calculateScore hill_trail empty_preferences june_noon 12) = 0.55"
  "total (calculateScore near_route empty_preferences june_noon 12) = 0.55"
  "total (calculateScore far_route empty_preferences june_noon 12) = 0.55"
  using bare_route_score [where d = "Some 1200" and t = "Some [''lake'']" and sp = None]
    bare_route_score [where d = "Some 3000" and t = "Some [''hill'']" and sp = None]
    bare_route_score [where d = None and t = None and sp = "Some origin"]
    bare_route_score [where d = None and t = None and sp = "Some antipode"]
  by (simp_all add: park_loop_def hill_trail_def near_route_def far_route_def
      empty_route_def)

lemma dissimilar_far_near: "\<not> areRoutesSimilar far_route near_route"
  by (simp add: areRoutesSimilar_def far_route_def near_route_def empty_route_def)

lemma distance_origin: "calculateDistance origin origin = 0"
  by (simp add: calculateDistance_def origin_def js_atan2_def Let_def)

lemma distance_antipode: "calculateDistance origin antipode = 6371000 * pi"
  by (simp add: calculateDistance_def origin_def antipode_def js_atan2_def Let_def)

lemma score_entry_located:
  "startPoint r = Some sp \<Longrightarrow>
   score_entry (Some u) prof c h r = Inr (located_entry u prof c h r sp)"
  by (simp add: score_entry_def located_entry_def Let_def)

lemma located_entry_fields [simp]:
  "route (located_entry u prof c h r sp) = r"
  "score (located_entry u prof c h r sp) = total (calculateScore r prof c h)"
  by (simp_all add: located_entry_def Let_def)

lemma near_distance_score: "distanceScore (located_entry origin prof c h r origin) = 1"
  by (simp add: located_entry_def Let_def distance_origin)

lemma far_distance_score: "distanceScore (located_entry origin prof c h r antipode) = 0"
proof -
  have "2 \<le> pi" by (rule pi_ge_two)
  then have "1 - calculateDistance origin antipode / 5000 \<le> 0"
    by (simp add: distance_antipode)
  then show ?thesis
    by (simp add: located_entry_def Let_def)
qed

lemma start_points:
  "startPoint near_route = Some origin" "startPoint far_route = Some antipode"
  by (simp_all add: near_route_def far_route_def empty_route_def)

text \<open>C8, as stated, fails for a constraint that is present with a falsy value: with
  \<^verbatim>\<open>maxDistance: 0\<close> the guard \<^verbatim>\<open>filters.maxDistance && ...\<close> skips the
  test, and a route of 1200 m, which lies outside \<open>[minDistance, maxDistance]\<close>, is
  returned.\<close>

theorem C8_zero_limit_counterexample:
  "maxDistance zero_max = Some 0 \<and> distance park_loop = Some 1200
   \<and> recommendRoutes [park_loop] zero_max None empty_preferences 12 6 =
       Inr [plain_entry empty_preferences june_noon 12 park_loop]
   \<and> route (plain_entry empty_preferences june_noon 12 park_loop) = park_loop"
  by (simp add: zero_max_def no_filters_def park_loop_def empty_route_def recommendRoutes_def
      sortedRoutes_def eligibleRoutes_def meetsBasicCriteria_def truthy_num_def truthy_str_def
      truthy_flag_def dflt_def getCurrentSeason_def june_noon_def score_entry_plain js_sort_def
      select_top2_def)

text \<open>C8, amended: whenever the call returns (which it does when no user location is given
  or every eligible route has a start point), \<^verbatim>\<open>recommendRoutes\<close> returns at most
  2 routes, each one a route of the input that violates no active constraint, where a
  constraint is active when its filter value is truthy (a non-zero
  \<^verbatim>\<open>maxDistance\<close>, \<^verbatim>\<open>minDistance\<close> or \<^verbatim>\<open>maxDuration\<close>, a
  non-empty \<^verbatim>\<open>difficulty\<close>, \<^verbatim>\<open>accessible: true\<close>); and when every
  route of the input violates an active constraint, it returns the empty list.\<close>

theorem C8_recommend_respects_filters:
  assumes "userLocation = None \<or> (\<forall>r\<in>set (eligibleRoutes allRoutes f). startPoint r \<noteq> None)"
  shows "\<exists>rs. recommendRoutes allRoutes f userLocation prof h m = Inr rs
          \<and> length rs \<le> 2
          \<and> (\<forall>sr\<in>set rs. route sr \<in> set allRoutes \<and> \<not> violates_filters f (route sr))
          \<and> ((\<forall>r\<in>set allRoutes. violates_filters f r) \<longrightarrow> rs = [])"
proof -
  from recommendRoutes_returns [OF assms, of prof h m] obtain ranked where
    s: "set (map route ranked) = set (eligibleRoutes allRoutes f)"
    and l: "length ranked = length (eligibleRoutes allRoutes f)"
    and r: "recommendRoutes allRoutes f userLocation prof h m = Inr (select_top2 ranked)"
    by blast
  let ?rs = "select_top2 ranked"
  have sub: "set ?rs \<subseteq> set ranked" and len: "length ?rs \<le> 2"
    using select_top2_props [of ranked] by simp_all
  have ok: "\<forall>sr\<in>set ?rs. route sr \<in> set allRoutes \<and> \<not> violates_filters f (route sr)"
  proof
    fix sr assume "sr \<in> set ?rs"
    with sub have "route sr \<in> set (map route ranked)" by auto
    with s have "route sr \<in> set (eligibleRoutes allRoutes f)" by simp
    then show "route sr \<in> set allRoutes \<and> \<not> violates_filters f (route sr)"
      by (simp add: eligibleRoutes_def meetsBasicCriteria_iff)
  qed
  have none: "(\<forall>r\<in>set allRoutes. violates_filters f r) \<longrightarrow> ?rs = []"
  proof
    assume "\<forall>r\<in>set allRoutes. violates_filters f r"
    then have "eligibleRoutes allRoutes f = []"
      by (simp add: eligibleRoutes_def meetsBasicCriteria_iff filter_empty_conv)
    with l have "ranked = []" by simp
    then show "?rs = []" by (simp add: select_top2_short)
  qed
  from r len ok none show ?thesis by blast
qed

text \<open>At two routes of 1200 m and 3000 m under \<^verbatim>\<open>maxDistance: 2000\<close>: only the
  first can be returned.\<close>

theorem C8_recommend_respects_filters_witness:
  "\<exists>rs. recommendRoutes [park_loop, hill_trail] short_only None empty_preferences 12 6 = Inr rs
        \<and> length rs \<le> 2 \<and> list_all (\<lambda>sr. route sr = park_loop) rs"
proof -
  have v: "violates_filters short_only hill_trail" "\<not> violates_filters short_only park_loop"
    by (simp_all add: violates_filters_def short_only_def no_filters_def hill_trail_def
        park_loop_def empty_route_def)
  from C8_recommend_respects_filters [of None "[park_loop, hill_trail]" short_only
      empty_preferences 12 6]
  obtain rs where
    "recommendRoutes [park_loop, hill_trail] short_only None empty_preferences 12 6 = Inr rs"
    "length rs \<le> 2"
    "\<forall>sr\<in>set rs. route sr \<in> set [park_loop, hill_trail] \<and> \<not> violates_filters short_only (route sr)"
    by auto
  with v show ?thesis
    by (intro exI [of _ rs]) (auto simp: list_all_iff)
qed

text \<open>The similarity test of the code is the rule of the specification.\<close>

lemma areRoutesSimilar_rule: "areRoutesSimilar r1 r2 \<longleftrightarrow> similar_rule r1 r2"
  by (simp add: areRoutesSimilar_def similar_rule_def relative_distance_difference_def
      theme_overlap_ratio_def Let_def of_nat_max split: option.splits)

text \<open>C7: let \<open>a\<close> and \<open>b\<close> be the two top-ranked routes. When they are similar
  (relative distance difference below 0.20 and theme-overlap ratio above 0.60), the result
  is \<open>a\<close> followed by the first route further down the ranked list that is not similar
  to \<open>a\<close>, and it is the pair \<open>a\<close>, \<open>b\<close> itself when there is no such route. When
  they are not similar, the result is the pair \<open>a\<close>, \<open>b\<close>.\<close>

theorem C7_diversified_second_pick:
  assumes "sortedRoutes allRoutes f userLocation prof h m = Inr (a # b # rest)"
  shows "recommendRoutes allRoutes f userLocation prof h m =
           Inr (if similar_rule (route a) (route b)
                then [a, case find (\<lambda>r. \<not> similar_rule (route a) (route r)) rest of
                           Some c \<Rightarrow> c | None \<Rightarrow> b]
                else [a, b])"
proof -
  have "eligibleRoutes allRoutes f \<noteq> []"
  proof
    assume "eligibleRoutes allRoutes f = []"
    then have "sortedRoutes allRoutes f userLocation prof h m = Inr []"
      by (simp add: sortedRoutes_def js_sort_def)
    with assms show False by simp
  qed
  with assms show ?thesis
    by (simp add: recommendRoutes_def select_top2_pair areRoutesSimilar_rule)
qed

text \<open>The five lake routes have equal scores, so they are ranked in input order.\<close>

lemma lake_route_scores:
  "total (calculateScore lakeside empty_preferences june_noon 12) = 0.55"
  "total (calculateScore lake_circuit empty_preferences june_noon 12) = 0.55"
  "total (calculateScore shore_path empty_preferences june_noon 12) = 0.55"
  "total (calculateScore long_lakeside empty_preferences june_noon 12) = 0.55"
  "total (calculateScore city_walk empty_preferences june_noon 12) = 0.55"
  using bare_route_score [where d = "Some 1000"
      and t = "Some [''lake'', ''birds'', ''wood'', ''hill'', ''river'']" and sp = None]
    bare_route_score [where d = "Some 950"
      and t = "Some [''lake'', ''birds'', ''wood'', ''hill'', ''meadow'']" and sp = None]
    bare_route_score [where d = "Some 980"
      and t = "Some [''lake'', ''birds'', ''wood'', ''hill'', ''river'']" and sp = None]
    bare_route_score [where d = "Some 2000"
      and t = "Some [''lake'', ''birds'', ''wood'', ''hill'', ''river'']" and sp = None]
    bare_route_score [where d = "Some 990" and t = "Some [''city'', ''market'']" and sp = None]
  by (simp_all add: lakeside_def lake_circuit_def shore_path_def long_lakeside_def
      city_walk_def empty_route_def)

lemma ranked_in_input_order:
  assumes "\<forall>r\<in>set rs. total (calculateScore r empty_preferences june_noon 12) = 0.55"
  shows "sortedRoutes rs no_filters None empty_preferences 12 6 =
           Inr (map (plain_entry empty_preferences june_noon 12) rs)"
proof -
  have m: "map_result (score_entry None empty_preferences june_noon 12) xs =
             Inr (map (plain_entry empty_preferences june_noon 12) xs)" for xs
    by (induction xs) (simp_all add: score_entry_plain)
  have s: "js_sort compareRoutes (map (plain_entry empty_preferences june_noon 12) xs) =
             map (plain_entry empty_preferences june_noon 12) xs"
    if "\<forall>r\<in>set xs. total (calculateScore r empty_preferences june_noon 12) = 0.55" for xs
    using that
  proof (induction xs)
    case Nil
    then show ?case by (simp add: js_sort_def)
  next
    case (Cons x xs)
    then have t: "js_sort compareRoutes (map (plain_entry empty_preferences june_noon 12) xs) =
                    map (plain_entry empty_preferences june_noon 12) xs" by simp
    show ?case
    proof (cases xs)
      case Nil
      then show ?thesis by (simp add: js_sort_def)
    next
      case (Cons y ys)
      with Cons.prems
      have "compareRoutes (plain_entry empty_preferences june_noon 12 x)
              (plain_entry empty_preferences june_noon 12 y) \<le> 0"
        by (simp add: compareRoutes_def)
      with t Cons show ?thesis
        using js_sort_def [of compareRoutes
            "map (plain_entry empty_preferences june_noon 12) (x # xs)"]
        by (simp add: js_sort_def)
    qed
  qed
  have e: "eligibleRoutes rs no_filters = rs"
    by (simp add: eligibleRoutes_def)
  show ?thesis
    using s [OF assms] by (simp add: sortedRoutes_def e june_ctx m)
qed

lemma lake_similarity:
  "similar_rule lakeside lake_circuit" "similar_rule lakeside shore_path"
  "\<not> similar_rule lakeside long_lakeside" "\<not> similar_rule lakeside city_walk"
  by (simp_all add: similar_rule_def relative_distance_difference_def theme_overlap_ratio_def
      lakeside_def lake_circuit_def shore_path_def long_lakeside_def city_walk_def
      empty_route_def dflt_def)

text \<open>At the five lake routes, all with the same score and so ranked in input order. The
  second route is similar to the first (5% shorter, 4 of 5 themes shared) and so is the
  third. With the long route ranked fourth it takes the second place, although it shares
  every theme: its length differs by half. With the city walk ranked fourth it takes the
  second place, although its length differs by 1%: it shares no theme. With no route
  after the three similar ones the top pair stays, and a top pair that is not similar
  stays as well.\<close>

theorem C7_diversified_second_pick_witness:
  "recommendRoutes [lakeside, lake_circuit, shore_path, long_lakeside, city_walk] no_filters None
       empty_preferences 12 6 =
     Inr [plain_entry empty_preferences june_noon 12 lakeside,
          plain_entry empty_preferences june_noon 12 long_lakeside]
   \<and> recommendRoutes [lakeside, lake_circuit, shore_path, city_walk, long_lakeside] no_filters None
       empty_preferences 12 6 =
     Inr [plain_entry empty_preferences june_noon 12 lakeside,
          plain_entry empty_preferences june_noon 12 city_walk]
   \<and> recommendRoutes [lakeside, lake_circuit, shore_path] no_filters None
       empty_preferences 12 6 =
     Inr [plain_entry empty_preferences june_noon 12 lakeside,
          plain_entry empty_preferences june_noon 12 lake_circuit]
   \<and> recommendRoutes [lakeside, city_walk, lake_circuit] no_filters None
       empty_preferences 12 6 =
     Inr [plain_entry empty_preferences june_noon 12 lakeside,
          plain_entry empty_preferences june_noon 12 city_walk]"
proof -
  have r1: "sortedRoutes [lakeside, lake_circuit, shore_path, long_lakeside, city_walk]
              no_filters None empty_preferences 12 6 =
            Inr [plain_entry empty_preferences june_noon 12 lakeside,
                 plain_entry empty_preferences june_noon 12 lake_circuit,
                 plain_entry empty_preferences june_noon 12 shore_path,
                 plain_entry empty_preferences june_noon 12 long_lakeside,
                 plain_entry empty_preferences june_noon 12 city_walk]"
    using ranked_in_input_order [of "[lakeside, lake_circuit, shore_path, long_lakeside, city_walk]"]
    by (simp add: lake_route_scores)
  have r2: "sortedRoutes [lakeside, lake_circuit, shore_path, city_walk, long_lakeside]
              no_filters None empty_preferences 12 6 =
            Inr [plain_entry empty_preferences june_noon 12 lakeside,
                 plain_entry empty_preferences june_noon 12 lake_circuit,
                 plain_entry empty_preferences june_noon 12 shore_path,
                 plain_entry empty_preferences june_noon 12 city_walk,
                 plain_entry empty_preferences june_noon 12 long_lakeside]"
    using ranked_in_input_order [of "[lakeside, lake_circuit, shore_path, city_walk, long_lakeside]"]
    by (simp add: lake_route_scores)
  have r3: "sortedRoutes [lakeside, lake_circuit, shore_path]
              no_filters None empty_preferences 12 6 =
            Inr [plain_entry empty_preferences june_noon 12 lakeside,
                 plain_entry empty_preferences june_noon 12 lake_circuit,
                 plain_entry empty_preferences june_noon 12 shore_path]"
    using ranked_in_input_order [of "[lakeside, lake_circuit, shore_path]"]
    by (simp add: lake_route_scores)
  have r4: "sortedRoutes [lakeside, city_walk, lake_circuit]
              no_filters None empty_preferences 12 6 =
            Inr [plain_entry empty_preferences june_noon 12 lakeside,
                 plain_entry empty_preferences june_noon 12 city_walk,
                 plain_entry empty_preferences june_noon 12 lake_circuit]"
    using ranked_in_input_order [of "[lakeside, city_walk, lake_circuit]"]
    by (simp add: lake_route_scores)
  from C7_diversified_second_pick [OF r1] C7_diversified_second_pick [OF r2]
    C7_diversified_second_pick [OF r3] C7_diversified_second_pick [OF r4]
  show ?thesis
    by (simp add: lake_similarity)
qed

text \<open>C2, on the code: two routes with equal total score (0.55), one starting at the user's
  position (distance score 1) and one starting on the other side of the globe (distance
  score 0). The comparator returns \<^verbatim>\<open>a.distanceScore - b.distanceScore\<close> for them,
  which sorts ascending by distance score, so the farther route is ranked first; the
  claim, and the comment of the source on that line, say the nearer one should be.\<close>

theorem C2_farther_route_ranked_first:
  "recommendRoutes [near_route, far_route] no_filters (Some origin) empty_preferences 12 6 =
     Inr [located_entry origin empty_preferences june_noon 12 far_route antipode,
          located_entry origin empty_preferences june_noon 12 near_route origin]
   \<and> score (located_entry origin empty_preferences june_noon 12 far_route antipode) =
       score (located_entry origin empty_preferences june_noon 12 near_route origin)
   \<and> distanceScore (located_entry origin empty_preferences june_noon 12 far_route antipode) = 0
   \<and> distanceScore (located_entry origin empty_preferences june_noon 12 near_route origin) = 1"
  by (simp add: recommendRoutes_def sortedRoutes_def eligibleRoutes_def june_ctx
      score_entry_located start_points named_route_scores js_sort_def compareRoutes_def
      select_top2_def dissimilar_far_near near_distance_score far_distance_score)

text \<open>In general: when two total scores differ by less than 0.10, the comparator puts the
  route with the smaller distance score, the farther one, first.\<close>

lemma compareRoutes_prefers_farther:
  assumes "\<bar>score b - score a\<bar> < 0.1" "distanceScore a < distanceScore b"
  shows "compareRoutes a b < 0"
  using assms by (simp add: compareRoutes_def)

end
